theory Spec2Isabelle
  imports Complex_Main
begin

section \<open>JavaScript values\<close>

text \<open>
  The wallet client is TypeScript; the values that reach the modelled functions are
  JavaScript values. A number is an IEEE binary64 value: every finite one is a rational,
  so a finite number is represented by the rational it denotes (\<open>+0\<close> and \<open>-0\<close> are
  both \<open>Fin 0\<close>; no modelled operation tells them apart), beside \<open>NaN\<close> and the two
  infinities. A string is a list of characters; a character beyond ASCII is written as
  the bytes of its UTF-8 encoding.
\<close>

datatype js_number = NaN | NegInf | Fin rat | PosInf

datatype js_value =
    JUndefined
  | JNull
  | JBool bool
  | JNum js_number
  | JStr string
  | JObject

text \<open>The \<^verbatim>\<open>typeof\<close> operator.\<close>

fun typeof :: "js_value \<Rightarrow> string" where
  "typeof JUndefined = ''undefined''"
| "typeof JNull = ''object''"
| "typeof (JBool b) = ''boolean''"
| "typeof (JNum n) = ''number''"
| "typeof (JStr s) = ''string''"
| "typeof JObject = ''object''"

text \<open>\<^verbatim>\<open>ToBoolean\<close>: what an \<^verbatim>\<open>if (x)\<close> tests.\<close>

fun truthy :: "js_value \<Rightarrow> bool" where
  "truthy JUndefined = False"
| "truthy JNull = False"
| "truthy (JBool b) = b"
| "truthy (JNum NaN) = False"
| "truthy (JNum (Fin r)) = (r \<noteq> 0)"
| "truthy (JNum NegInf) = True"
| "truthy (JNum PosInf) = True"
| "truthy (JStr s) = (s \<noteq> [])"
| "truthy JObject = True"

text \<open>An exception thrown with \<^verbatim>\<open>new Error(message)\<close>, or a \<^verbatim>\<open>TypeError\<close> of the runtime.\<close>

datatype error = Error string | TypeError string

section \<open>Numbers and strings\<close>

subsection \<open>Rounding to binary64\<close>

text \<open>
  \<open>binary64 r\<close> is the Number value for the real \<open>r\<close>: the nearest double, a tie going
  to the even significand, and an infinity once the magnitude rounds to \<open>2^1024\<close>.
\<close>

definition pow2 :: "int \<Rightarrow> rat" where
  "pow2 e = (if 0 \<le> e then 2 ^ nat e else 1 / 2 ^ nat (- e))"

definition pow10 :: "int \<Rightarrow> rat" where
  "pow10 e = (if 0 \<le> e then 10 ^ nat e else 1 / 10 ^ nat (- e))"

text \<open>The number of digits of a natural number in base \<open>b\<close> (0 has none).\<close>

fun digit_count :: "nat \<Rightarrow> nat \<Rightarrow> nat" where
  "digit_count b n = (if n = 0 \<or> b < 2 then 0 else Suc (digit_count b (n div b)))"

declare digit_count.simps [simp del]

text \<open>
  For \<open>0 < r\<close>: the integer \<open>e\<close> with \<open>b^e \<le> r < b^(e+1)\<close>, for \<open>b\<close> 2 and 10. The digits
  of the integer part of \<open>r\<close>, or of \<open>1 / r\<close> when \<open>r < 1\<close>, give it; below 1 a power of
  the base itself is one higher, which the comparison corrects.
\<close>

definition ilog2 :: "rat \<Rightarrow> int" where
  "ilog2 r =
     (let e = (if 1 \<le> r then int (digit_count 2 (nat \<lfloor>r\<rfloor>)) - 1
               else - int (digit_count 2 (nat \<lfloor>1 / r\<rfloor>)))
      in if pow2 (e + 1) \<le> r then e + 1 else e)"

definition ilog10 :: "rat \<Rightarrow> int" where
  "ilog10 r =
     (let e = (if 1 \<le> r then int (digit_count 10 (nat \<lfloor>r\<rfloor>)) - 1
               else - int (digit_count 10 (nat \<lfloor>1 / r\<rfloor>)))
      in if pow10 (e + 1) \<le> r then e + 1 else e)"

definition round_half_even :: "rat \<Rightarrow> int" where
  "round_half_even x =
     (let f = \<lfloor>x\<rfloor>; d = x - of_int f
      in if d < 1 / 2 then f
         else if 1 / 2 < d then f + 1
         else if even f then f else f + 1)"

definition binary64_pos :: "rat \<Rightarrow> js_number" where
  "binary64_pos r =
     (let q = max (ilog2 r - 52) (- 1074);
          v = of_int (round_half_even (r / pow2 q)) * pow2 q
      in if pow2 1024 \<le> v then PosInf else Fin v)"

fun js_neg :: "js_number \<Rightarrow> js_number" where
  "js_neg NaN = NaN"
| "js_neg NegInf = PosInf"
| "js_neg (Fin r) = Fin (- r)"
| "js_neg PosInf = NegInf"

definition binary64 :: "rat \<Rightarrow> js_number" where
  "binary64 r =
     (if r = 0 then Fin 0
      else if 0 < r then binary64_pos r
      else js_neg (binary64_pos (- r)))"

subsection \<open>Comparison and truncation\<close>

text \<open>\<^verbatim>\<open>a < b\<close> and \<open>a > b\<close> on numbers: false whenever an operand is \<^verbatim>\<open>NaN\<close>.\<close>

fun js_lt :: "js_number \<Rightarrow> js_number \<Rightarrow> bool" where
  "js_lt NaN b = False"
| "js_lt a NaN = False"
| "js_lt NegInf NegInf = False"
| "js_lt NegInf b = True"
| "js_lt PosInf b = False"
| "js_lt (Fin r) NegInf = False"
| "js_lt (Fin r) (Fin s) = (r < s)"
| "js_lt (Fin r) PosInf = True"

definition js_gt :: "js_number \<Rightarrow> js_number \<Rightarrow> bool" where
  "js_gt a b = js_lt b a"

text \<open>\<^verbatim>\<open>Math.trunc\<close>: the integer part, rounding toward zero.\<close>

fun Math_trunc :: "js_number \<Rightarrow> js_number" where
  "Math_trunc (Fin r) = Fin (of_int (if 0 \<le> r then \<lfloor>r\<rfloor> else \<lceil>r\<rceil>))"
| "Math_trunc n = n"

subsection \<open>\<^verbatim>\<open>Number(string)\<close>\<close>

definition is_digit :: "char \<Rightarrow> bool" where
  "is_digit c = (c \<in> set ''0123456789'')"

definition digit_value :: "char \<Rightarrow> nat" where
  "digit_value c =
     (if c \<in> set ''0123456789'' then of_char c - 48
      else if c \<in> set ''abcdef'' then of_char c - 87
      else of_char c - 55)"

text \<open>The value of a digit string in base \<open>b\<close>, most significant digit first.\<close>

definition digits_value :: "nat \<Rightarrow> string \<Rightarrow> nat" where
  "digits_value b ds = foldl (\<lambda>acc c. acc * b + digit_value c) 0 ds"

text \<open>
  The white space that \<^verbatim>\<open>Number\<close> trims is every WhiteSpace and LineTerminator character
  of the language: TAB, LF, VT, FF, CR, SP, U+00A0, U+1680, U+2000 to U+200A, U+2028,
  U+2029, U+202F, U+205F, U+3000 and U+FEFF, each here as the bytes of its UTF-8
  encoding. \<open>skip_white ws s\<close> drops from the front of \<open>s\<close> every leading character of
  \<open>ws\<close>; the end of the string is trimmed on the reversed string with the reversed
  encodings.
\<close>

definition white_space :: "string list" where
  "white_space =
     [[CHR 0x09], [CHR 0x0A], [CHR 0x0B], [CHR 0x0C], [CHR 0x0D], [CHR 0x20],
      [CHR 0xC2, CHR 0xA0],
      [CHR 0xE1, CHR 0x9A, CHR 0x80],
      [CHR 0xE2, CHR 0x80, CHR 0x80], [CHR 0xE2, CHR 0x80, CHR 0x81],
      [CHR 0xE2, CHR 0x80, CHR 0x82], [CHR 0xE2, CHR 0x80, CHR 0x83],
      [CHR 0xE2, CHR 0x80, CHR 0x84], [CHR 0xE2, CHR 0x80, CHR 0x85],
      [CHR 0xE2, CHR 0x80, CHR 0x86], [CHR 0xE2, CHR 0x80, CHR 0x87],
      [CHR 0xE2, CHR 0x80, CHR 0x88], [CHR 0xE2, CHR 0x80, CHR 0x89],
      [CHR 0xE2, CHR 0x80, CHR 0x8A],
      [CHR 0xE2, CHR 0x80, CHR 0xA8], [CHR 0xE2, CHR 0x80, CHR 0xA9],
      [CHR 0xE2, CHR 0x80, CHR 0xAF],
      [CHR 0xE2, CHR 0x81, CHR 0x9F],
      [CHR 0xE3, CHR 0x80, CHR 0x80],
      [CHR 0xEF, CHR 0xBB, CHR 0xBF]]"

fun skip_white :: "string list \<Rightarrow> string \<Rightarrow> string" where
  "skip_white ws [] = []"
| "skip_white ws (c # cs) =
     (case find (\<lambda>w. w \<noteq> [] \<and> take (length w) (c # cs) = w) ws of
        None \<Rightarrow> c # cs
      | Some w \<Rightarrow> skip_white ws (drop (length w - 1) cs))"

definition trim :: "string \<Rightarrow> string" where
  "trim s = rev (skip_white (map rev white_space) (rev (skip_white white_space s)))"

text \<open>
  An unsigned decimal literal: \<^verbatim>\<open>digits\<close>, \<^verbatim>\<open>digits.\<close>, \<^verbatim>\<open>digits.digits\<close> or \<^verbatim>\<open>.digits\<close>,
  then an optional exponent \<^verbatim>\<open>e\<close> or \<^verbatim>\<open>E\<close> with an optional sign and at least one digit.
  The result is \<open>None\<close> when the string is no such literal, and else the coefficient
  \<open>c\<close> (all the digits, as one integer) and the exponent \<open>e\<close>: the exact value is
  \<open>c * 10^e\<close>.
\<close>

definition parse_exponent :: "string \<Rightarrow> int option" where
  "parse_exponent s =
     (let (neg, ds) =
            (case s of
               c # cs \<Rightarrow> if c = CHR ''-'' then (True, cs)
                          else if c = CHR ''+'' then (False, cs) else (False, s)
             | [] \<Rightarrow> (False, s))
      in if ds \<noteq> [] \<and> list_all is_digit ds
         then Some (if neg then - int (digits_value 10 ds) else int (digits_value 10 ds))
         else None)"

definition parse_decimal_parts :: "string \<Rightarrow> (nat \<times> int) option" where
  "parse_decimal_parts s =
     (let ip = takeWhile is_digit s;
          r1 = dropWhile is_digit s;
          (fp, r2) =
            (case r1 of
               c # cs \<Rightarrow> if c = CHR ''.'' then (takeWhile is_digit cs, dropWhile is_digit cs)
                          else ([], r1)
             | [] \<Rightarrow> ([], r1));
          ex =
            (case r2 of
               [] \<Rightarrow> Some 0
             | c # cs \<Rightarrow> if c = CHR ''e'' \<or> c = CHR ''E'' then parse_exponent cs else None)
      in if ip = [] \<and> fp = [] then None
         else (case ex of
                 None \<Rightarrow> None
               | Some e \<Rightarrow> Some (digits_value 10 (ip @ fp), e - int (length fp))))"

definition parse_unsigned_decimal :: "string \<Rightarrow> rat option" where
  "parse_unsigned_decimal s =
     (case parse_decimal_parts s of
        None \<Rightarrow> None
      | Some (c, e) \<Rightarrow> Some (of_nat c * pow10 e))"

text \<open>A literal in base 16, 8 or 2: the prefix, then at least one digit of the base.\<close>

definition parse_radix :: "string \<Rightarrow> rat option" where
  "parse_radix s =
     (case s of
        z # x # ds \<Rightarrow>
          if z = CHR ''0'' \<and> ds \<noteq> [] then
            (if x \<in> set ''xX'' \<and> list_all (\<lambda>c. c \<in> set ''0123456789abcdefABCDEF'') ds
               then Some (of_nat (digits_value 16 ds))
             else if x \<in> set ''oO'' \<and> list_all (\<lambda>c. c \<in> set ''01234567'') ds
               then Some (of_nat (digits_value 8 ds))
             else if x \<in> set ''bB'' \<and> list_all (\<lambda>c. c \<in> set ''01'') ds
               then Some (of_nat (digits_value 2 ds))
             else None)
          else None
      | _ \<Rightarrow> None)"

text \<open>
  \<^verbatim>\<open>Number(s)\<close> for a string (the runtime's StringToNumber): white space is trimmed, the
  empty string is 0, a string that is no numeric literal is \<^verbatim>\<open>NaN\<close>, and the
  literal's value is rounded to the nearest double (also beyond 20 significant digits,
  where the language leaves the last digits to the implementation).
\<close>

definition StringToNumber :: "string \<Rightarrow> js_number" where
  "StringToNumber s =
     (let t = trim s in
      if t = [] then Fin 0
      else (case parse_radix t of
              Some r \<Rightarrow> binary64 r
            | None \<Rightarrow>
                (let (neg, u) =
                       (case t of
                          c # cs \<Rightarrow> if c = CHR ''-'' then (True, cs)
                                     else if c = CHR ''+'' then (False, cs) else (False, t)
                        | [] \<Rightarrow> (False, t));
                     n = (if u = ''Infinity'' then PosInf
                          else (case parse_unsigned_decimal u of
                                  None \<Rightarrow> NaN
                                | Some r \<Rightarrow> binary64 r))
                 in if neg then js_neg n else n)))"

subsection \<open>\<^verbatim>\<open>String(number)\<close>\<close>

text \<open>The decimal digits of a natural number; \<open>0\<close> is \<^verbatim>\<open>"0"\<close>.\<close>

definition digit_char :: "nat \<Rightarrow> char" where
  "digit_char d = ''0123456789'' ! d"

fun nat_digits :: "nat \<Rightarrow> string" where
  "nat_digits n =
     (if n < 10 then [digit_char n]
      else nat_digits (n div 10) @ [digit_char (n mod 10)])"

declare nat_digits.simps [simp del]

text \<open>
  The shortest digits that denote the number. For \<open>0 < r\<close> and \<open>k\<close> digits, the two
  \<open>k\<close>-digit decimals around \<open>r\<close> are tried: one that rounds to the double of \<open>r\<close> is
  wanted, the nearer of the two when both do (the even one on a tie). The search starts at
  one digit and stops at 17, which are enough for every double. The result is the
  integer \<open>s\<close> of the digits and the exponent \<open>n\<close>: the value is \<open>s * 10^(n - k)\<close>.
\<close>

definition digits_candidate :: "rat \<Rightarrow> int \<Rightarrow> nat \<Rightarrow> (nat \<times> int) option" where
  "digits_candidate r n0 k =
     (let scale = pow10 (n0 - int k);
          lo = nat \<lfloor>r / scale\<rfloor>;
          hi = lo + 1;
          lo_ok = (binary64 (of_nat lo * scale) = binary64 r);
          hi_ok = (binary64 (of_nat hi * scale) = binary64 r);
          dlo = r - of_nat lo * scale;
          dhi = of_nat hi * scale - r;
          pick_lo = (lo_ok \<and> (\<not> hi_ok \<or> dlo < dhi \<or> (dlo = dhi \<and> even lo)))
      in if pick_lo then Some (lo, n0)
         else if hi_ok then (if hi = 10 ^ k then Some (10 ^ (k - 1), n0 + 1) else Some (hi, n0))
         else None)"

fun shortest_digits :: "rat \<Rightarrow> int \<Rightarrow> nat \<Rightarrow> nat \<Rightarrow> nat \<times> int" where
  "shortest_digits r n0 k 0 = (nat \<lfloor>r / pow10 (n0 - int k)\<rfloor>, n0)"
| "shortest_digits r n0 k (Suc fuel) =
     (case digits_candidate r n0 k of
        Some res \<Rightarrow> res
      | None \<Rightarrow> shortest_digits r n0 (Suc k) fuel)"

definition format_digits :: "string \<Rightarrow> int \<Rightarrow> string" where
  "format_digits ds n =
     (let k = int (length ds) in
      if k \<le> n \<and> n \<le> 21 then ds @ replicate (nat (n - k)) CHR ''0''
      else if 0 < n \<and> n \<le> 21 then take (nat n) ds @ ''.'' @ drop (nat n) ds
      else if - 6 < n \<and> n \<le> 0 then ''0.'' @ replicate (nat (- n)) CHR ''0'' @ ds
      else (let e = n - 1;
                ex = (if e < 0 then ''-'' else ''+'') @ nat_digits (nat \<bar>e\<bar>)
            in if k = 1 then ds @ ''e'' @ ex
               else take 1 ds @ ''.'' @ drop 1 ds @ ''e'' @ ex))"

text \<open>\<^verbatim>\<open>String(x)\<close> for a number (the runtime's Number::toString in radix 10).\<close>

definition positive_to_string :: "rat \<Rightarrow> string" where
  "positive_to_string r =
     (let (s, n) = shortest_digits r (ilog10 r + 1) 1 17
      in format_digits (nat_digits s) n)"

fun NumberToString :: "js_number \<Rightarrow> string" where
  "NumberToString NaN = ''NaN''"
| "NumberToString PosInf = ''Infinity''"
| "NumberToString NegInf = ''-Infinity''"
| "NumberToString (Fin r) =
     (if r = 0 then ''0''
      else if r < 0 then ''-'' @ positive_to_string (- r)
      else positive_to_string r)"

text \<open>\<^verbatim>\<open>String(x)\<close> for any value.\<close>

fun JS_String :: "js_value \<Rightarrow> string" where
  "JS_String JUndefined = ''undefined''"
| "JS_String JNull = ''null''"
| "JS_String (JBool b) = (if b then ''true'' else ''false'')"
| "JS_String (JNum n) = NumberToString n"
| "JS_String (JStr s) = s"
| "JS_String JObject = ''[object Object]''"

subsection \<open>Regular expressions\<close>

text \<open>
  The fragment of regular expressions the sources use, matched by derivatives.
  \<open>regexp_test r s\<close> is \<^verbatim>\<open>new RegExp(r).test(s)\<close> for a fresh expression: some substring
  of \<open>s\<close> matches \<open>r\<close>.
\<close>

datatype rexp =
    Zero
  | One
  | Class "char list"
  | Alt rexp rexp
  | Seq rexp rexp
  | Star rexp

definition Opt :: "rexp \<Rightarrow> rexp" where
  "Opt r = Alt r One"

definition Plus :: "rexp \<Rightarrow> rexp" where
  "Plus r = Seq r (Star r)"

fun nullable :: "rexp \<Rightarrow> bool" where
  "nullable Zero = False"
| "nullable One = True"
| "nullable (Class cs) = False"
| "nullable (Alt r s) = (nullable r \<or> nullable s)"
| "nullable (Seq r s) = (nullable r \<and> nullable s)"
| "nullable (Star r) = True"

fun deriv :: "char \<Rightarrow> rexp \<Rightarrow> rexp" where
  "deriv c Zero = Zero"
| "deriv c One = Zero"
| "deriv c (Class cs) = (if c \<in> set cs then One else Zero)"
| "deriv c (Alt r s) = Alt (deriv c r) (deriv c s)"
| "deriv c (Seq r s) =
     (if nullable r then Alt (Seq (deriv c r) s) (deriv c s) else Seq (deriv c r) s)"
| "deriv c (Star r) = Seq (deriv c r) (Star r)"

fun matches_prefix :: "rexp \<Rightarrow> string \<Rightarrow> bool" where
  "matches_prefix r [] = nullable r"
| "matches_prefix r (c # cs) = (nullable r \<or> matches_prefix (deriv c r) cs)"

fun regexp_test :: "rexp \<Rightarrow> string \<Rightarrow> bool" where
  "regexp_test r [] = nullable r"
| "regexp_test r (c # cs) = (matches_prefix r (c # cs) \<or> regexp_test r cs)"

subsection \<open>\<^verbatim>\<open>new BigNumber(x).toFixed()\<close>\<close>

text \<open>
  bignumber.js is an external library, and the model covers the strings its constructor
  reads directly: those of its expression \<^verbatim>\<open>isNumeric\<close>, an optional minus sign and an
  unsigned decimal literal as above. This is what \<^verbatim>\<open>String\<close> gives for a finite number.
  For such a string, zero or with a decimal exponent of at most \<open>10^7\<close> in magnitude, the
  constructor holds the exact decimal value and \<^verbatim>\<open>toFixed()\<close> writes it in full, without
  an exponent and without the sign of a zero. For every other string (a plus sign,
  white space, a radix prefix, \<^verbatim>\<open>Infinity\<close>, no number at all) the library takes another
  path, and beyond these exponents it rounds to zero or to infinity as its range is
  configured; neither is modelled: the result is \<open>None\<close>, no statement about the answer.
\<close>

definition fixed_notation :: "nat \<Rightarrow> int \<Rightarrow> string" where
  "fixed_notation c e =
     (if 0 \<le> e then nat_digits (c * 10 ^ nat e)
      else
        (let ds = nat_digits c;
             fl = nat (- e);
             padded = replicate (Suc fl - length ds) CHR ''0'' @ ds;
             ip = take (length padded - fl) padded;
             fp = rev (dropWhile (\<lambda>ch. ch = CHR ''0'') (rev (drop (length padded - fl) padded)))
         in if fp = [] then ip else ip @ ''.'' @ fp))"

definition BigNumber_toFixed :: "string \<Rightarrow> string option" where
  "BigNumber_toFixed s =
     (let (neg, u) =
            (case s of
               c # cs \<Rightarrow> if c = CHR ''-'' then (True, cs) else (False, s)
             | [] \<Rightarrow> (False, s))
      in case parse_decimal_parts u of
           None \<Rightarrow> None
         | Some (c, e) \<Rightarrow>
             (let sci = e + int (digit_count 10 c) - 1
              in if c = 0 then Some ''0''
                 else if sci < - (10 ^ 7) \<or> 10 ^ 7 < sci then None
                 else Some ((if neg then ''-'' else []) @ fixed_notation c e)))"

section \<open>The amount text (\<^verbatim>\<open>components/General/AmountText/AmountText.tsx\<close>)\<close>

text \<open>
  The component's state. The field \<^verbatim>\<open>value\<close> of the source is \<open>shownValue\<close> here.
  \<^verbatim>\<open>originalValue\<close> and \<^verbatim>\<open>value\<close> hold any JavaScript value (\<^verbatim>\<open>value\<close> is declared a string,
  and the derivation below stores the decoder's result in it); \<^verbatim>\<open>truncated\<close> is
  \<^verbatim>\<open>undefined\<close>, \<^verbatim>\<open>'LOW'\<close> or \<^verbatim>\<open>'HIGH'\<close>.
\<close>

datatype truncation = LOW | HIGH

record amount_state =
  originalValue :: js_value
  shownValue :: js_value
  truncated :: "truncation option"
  showOriginalValue :: bool

text \<open>The state the constructor sets.\<close>

definition initial_state :: amount_state where
  "initial_state =
     \<lparr>originalValue = JUndefined, shownValue = JStr [], truncated = None,
      showOriginalValue = False\<rparr>"

text \<open>\<^verbatim>\<open>props.value\<close> is a number or a string.\<close>

datatype prop_value = NumberValue js_number | StringValue string

text \<open>\<^verbatim>\<open>String(value)\<close>, and the number after \<^verbatim>\<open>if (typeof value === 'string') value = Number(value)\<close>.\<close>

fun String_of_value :: "prop_value \<Rightarrow> string" where
  "String_of_value (NumberValue n) = NumberToString n"
| "String_of_value (StringValue s) = s"

fun Number_of_value :: "prop_value \<Rightarrow> js_number" where
  "Number_of_value (NumberValue n) = n"
| "Number_of_value (StringValue s) = StringToNumber s"

text \<open>
  What \<^verbatim>\<open>getDerivedStateFromProps\<close> returns when it is not \<^verbatim>\<open>null\<close>: an object with the
  keys \<^verbatim>\<open>originalValue\<close> and \<^verbatim>\<open>value\<close>, and in one branch the key \<^verbatim>\<open>truncated\<close>. For
  \<open>set_truncated\<close>, \<open>None\<close> is an object without the key and \<open>Some t\<close> an object that
  has it, with the value \<open>t\<close> (\<open>Some None\<close>: the key is there and \<^verbatim>\<open>undefined\<close>).
\<close>

record state_update =
  set_originalValue :: js_value
  set_value :: js_value
  set_truncated :: "truncation option option"

definition PRECISION :: nat where
  "PRECISION = 8"

definition MAX_VALUE :: js_number where
  "MAX_VALUE = Fin 99999"

text \<open>The string \<^verbatim>\<open>'0\<dots>'\<close>: a zero and U+2026, here as its three UTF-8 bytes.\<close>

definition zero_ellipsis :: string where
  "zero_ellipsis = [CHR ''0'', CHR 0xE2, CHR 0x80, CHR 0xA6]"

text \<open>
  \<^verbatim>\<open>getDerivedStateFromProps(nextProps, prevState)\<close>. The two functions it imports are
  not among the sources and are parameters: \<open>XRPLValueToNFT\<close> (of
  \<^verbatim>\<open>@common/utils/amount\<close>), from a number to the decoded value or a falsy value, and
  \<open>formatNumber\<close> (\<^verbatim>\<open>Localize.formatNumber\<close>), from a number to the text to show.
  \<open>None\<close> is \<^verbatim>\<open>null\<close>.
\<close>

definition getDerivedStateFromProps ::
  "(js_number \<Rightarrow> js_value) \<Rightarrow> (js_number \<Rightarrow> string) \<Rightarrow> prop_value \<Rightarrow> amount_state
     \<Rightarrow> state_update option" where
  "getDerivedStateFromProps XRPLValueToNFT formatNumber nextValue prevState =
     (if originalValue prevState = JStr (String_of_value nextValue) then None
      else
        let v = Number_of_value nextValue in
        if v = Fin 0 then
          Some \<lparr>set_originalValue = JStr (NumberToString v),
                set_value = JStr (NumberToString v),
                set_truncated = None\<rparr>
        else
          let NFT = XRPLValueToNFT v in
          if truthy NFT then
            Some \<lparr>set_originalValue = JStr (NumberToString v),
                  set_value = NFT,
                  set_truncated = None\<rparr>
          else
            let (newValue, trunc) =
                  (if js_gt v (Fin 0) \<and>
                      js_lt v (StringToNumber (''0.'' @ replicate PRECISION CHR ''0'' @ ''9''))
                   then (zero_ellipsis, Some LOW)
                   else if js_gt v MAX_VALUE then (formatNumber (Math_trunc v), Some HIGH)
                   else (formatNumber v, None))
            in if JStr newValue \<noteq> shownValue prevState then
                 Some \<lparr>set_originalValue = JStr (NumberToString v),
                       set_value = JStr newValue,
                       set_truncated = Some trunc\<rparr>
               else None)"

text \<open>
  React merges the returned object into the state: a key the object has replaces the
  state's, every other key of the state stays, and \<^verbatim>\<open>null\<close> changes nothing.
\<close>

definition apply_update :: "amount_state \<Rightarrow> state_update option \<Rightarrow> amount_state" where
  "apply_update st upd =
     (case upd of
        None \<Rightarrow> st
      | Some u \<Rightarrow>
          st\<lparr>originalValue := set_originalValue u,
             shownValue := set_value u,
             truncated := (case set_truncated u of None \<Rightarrow> truncated st | Some t \<Rightarrow> t)\<rparr>)"

text \<open>
  The state after the component has received a value: React calls the derivation with
  the new props and the state, and merges what it returns.
\<close>

definition next_state ::
  "(js_number \<Rightarrow> js_value) \<Rightarrow> (js_number \<Rightarrow> string) \<Rightarrow> prop_value \<Rightarrow> amount_state
     \<Rightarrow> amount_state" where
  "next_state XRPLValueToNFT formatNumber nextValue st =
     apply_update st (getDerivedStateFromProps XRPLValueToNFT formatNumber nextValue st)"

text \<open>The regular expression of \<^verbatim>\<open>alertOriginalValue\<close>:
  \<^verbatim>\<open>/[-+]?[0-9]*\.?[0-9]+([eE][-+]?[0-9]+)/\<close>.\<close>

definition exponent_regexp :: rexp where
  "exponent_regexp =
     Seq (Opt (Class ''-+''))
       (Seq (Star (Class ''0123456789''))
         (Seq (Opt (Class ''.''))
           (Seq (Plus (Class ''0123456789''))
             (Seq (Class ''eE'')
               (Seq (Opt (Class ''-+'')) (Plus (Class ''0123456789'')))))))"

text \<open>
  \<^verbatim>\<open>alertOriginalValue\<close>: the result is the \<^verbatim>\<open>amount\<close> that the alert shows to the user
  (\<open>None\<close> when the library's answer lies outside the model above).
\<close>

definition alertOriginalValue :: "amount_state \<Rightarrow> string option" where
  "alertOriginalValue st =
     (let amount = JS_String (originalValue st) in
      if regexp_test exponent_regexp amount then BigNumber_toFixed amount else Some amount)"

text \<open>
  \<^verbatim>\<open>onPress\<close>: nothing when the value is not truncated, the toggle of
  \<^verbatim>\<open>showOriginalValue\<close> for \<^verbatim>\<open>'HIGH'\<close>, the alert for \<^verbatim>\<open>'LOW'\<close>. The result is the new
  state and what the user is shown.
\<close>

datatype press_effect = NoAlert | Alert "string option"

definition onPress :: "amount_state \<Rightarrow> amount_state \<times> press_effect" where
  "onPress st =
     (case truncated st of
        None \<Rightarrow> (st, NoAlert)
      | Some HIGH \<Rightarrow> (st\<lparr>showOriginalValue := \<not> showOriginalValue st\<rparr>, NoAlert)
      | Some LOW \<Rightarrow> (st, Alert (alertOriginalValue st)))"

text \<open>
  A decoder for the runs below, \<^verbatim>\<open>XRPLValueToNFT\<close> itself not being among the sources: it
  takes the positive numbers below \<open>10^-70\<close> for the NFT 1 and no other number. The
  runs need of it only that it takes some number for an NFT and rejects the ordinary
  amounts they show.
\<close>

definition sample_decoder :: "js_number \<Rightarrow> js_value" where
  "sample_decoder n =
     (if js_gt n (Fin 0) \<and> js_lt n (Fin (1 / 10 ^ 70)) then JNum (Fin 1) else JBool False)"

section \<open>The send screen (\<^verbatim>\<open>screens/Send/SendView.tsx\<close>)\<close>

subsection \<open>Data\<close>

datatype Steps = Details | Recipient | Summary | Submitting | Verifying | Result

text \<open>An account of the store (\<^verbatim>\<open>AccountSchema\<close>): its address and its \<^verbatim>\<open>default\<close> mark.\<close>

record account =
  address :: string
  is_default :: bool

text \<open>
  A trust line (\<^verbatim>\<open>TrustLineSchema\<close>): \<^verbatim>\<open>currency.currency.currency\<close>,
  \<^verbatim>\<open>currency.currency.issuer\<close> and \<^verbatim>\<open>currency.isNFT\<close>. The currency of the screen is a
  trust line or a string (the native currency).
\<close>

record trust_line =
  currency_code :: string
  issuer :: string
  isNFT :: bool

datatype currency_choice = Native string | TrustLine trust_line

record destination =
  dest_address :: string
  dest_tag :: "nat option"

text \<open>
  Modelled from the spec: the \<^verbatim>\<open>Payment\<close> class (\<^verbatim>\<open>@common/libs/ledger/transactions\<close>) is not
  among the sources. The specification describes it as composed of the optional fields
  \<^verbatim>\<open>Account\<close>, \<^verbatim>\<open>Destination\<close>, \<^verbatim>\<open>Amount\<close>, \<^verbatim>\<open>TransferRate\<close> and \<^verbatim>\<open>Flags\<close>; an assignment to a
  field stores the value, and \<^verbatim>\<open>new Payment()\<close> has no field set.
\<close>

datatype amount =
    NativeAmount string
  | IssuedAmount string string string

record payment =
  Amount :: "amount option"
  Destination :: "destination option"
  Account :: "string option"
  TransferRate :: "js_value option"
  Flags :: "nat list option"

definition new_Payment :: payment where
  "new_Payment =
     \<lparr>Amount = None, Destination = None, Account = None, TransferRate = None, Flags = None\<rparr>"

definition carries_flag :: "payment \<Rightarrow> nat \<Rightarrow> bool" where
  "carries_flag p f = (case Flags p of None \<Rightarrow> False | Some fs \<Rightarrow> f \<in> set fs)"

text \<open>
  A promise of an external service, as the screen sees it: fulfilled with a value,
  rejected with a reason (\<open>None\<close>: a falsy reason, which the \<^verbatim>\<open>catch\<close> block does not
  show), or never settled.
\<close>

datatype 'a promise = Fulfilled 'a | Rejected "error option" | Pending

text \<open>What \<^verbatim>\<open>payment.submit()\<close> and \<^verbatim>\<open>payment.verify()\<close> resolve to.\<close>

record tx_result =
  success :: bool

text \<open>
  The external services: \<^verbatim>\<open>LedgerService.getAccountTransferRate\<close> and the four
  methods of the payment. Each is a function of what the screen passes to it.
\<close>

record services =
  getAccountTransferRate :: "string \<Rightarrow> js_value promise"
  payment_validate :: "payment \<Rightarrow> account option \<Rightarrow> unit promise"
  payment_sign :: "payment \<Rightarrow> account option \<Rightarrow> unit promise"
  payment_submit :: "payment \<Rightarrow> tx_result promise"
  payment_verify :: "payment \<Rightarrow> tx_result promise"

text \<open>
  What a run does to the outside, in order: a call of a service begins, its promise is
  fulfilled (for \<^verbatim>\<open>submit\<close> and \<^verbatim>\<open>verify\<close> with the \<^verbatim>\<open>success\<close> of the result) or rejected,
  and the calls to the haptic feedback and the navigator.
\<close>

datatype service = TransferRateLookup | Validate | Sign | Submit | Verify

datatype event =
    Called service
  | Returned service
  | Acknowledged service bool
  | Failed service
  | VibrateHapticFeedback string
  | showAlertModal string
  | mergeOptions
  | popToRoot
  | pop

text \<open>The part of the screen's state that the send flow reads and writes.\<close>

record send_state =
  currentStep :: Steps
  source :: "account option"
  currency :: currency_choice
  sendingNFT :: bool
  amount :: string
  destination :: "destination option"
  payment :: payment
  hapticFeedback :: bool
  isLoading :: bool

subsection \<open>The constructor\<close>

text \<open>
  \<^verbatim>\<open>props.currency\<close> and \<^verbatim>\<open>props.amount\<close> may be absent; \<open>accounts\<close> is
  \<^verbatim>\<open>AccountRepository.getSpendableAccounts()\<close> and \<open>haptic\<close> the \<^verbatim>\<open>hapticFeedback\<close> of
  the core settings. \<open>XRPLValueToNFT\<close> is the decoder of \<^verbatim>\<open>@common/utils/amount\<close>.
\<close>

definition SendView_constructor ::
  "(js_number \<Rightarrow> js_value) \<Rightarrow> account list \<Rightarrow> bool \<Rightarrow> currency_choice option
     \<Rightarrow> string option \<Rightarrow> send_state" where
  "SendView_constructor XRPLValueToNFT accounts haptic props_currency props_amount =
     (let src = (case find is_default accounts of
                   Some a \<Rightarrow> Some a
                 | None \<Rightarrow> (case accounts of [] \<Rightarrow> None | a # _ \<Rightarrow> Some a));
          cur = (case props_currency of
                   None \<Rightarrow> Native ''XRP''
                 | Some (Native s) \<Rightarrow> if s = [] then Native ''XRP'' else Native s
                 | Some (TrustLine t) \<Rightarrow> TrustLine t);
          nft = (case cur of Native s \<Rightarrow> False | TrustLine t \<Rightarrow> isNFT t);
          amt = (case props_amount of
                   None \<Rightarrow> []
                 | Some a \<Rightarrow>
                     if a = [] then []
                     else if nft then JS_String (XRPLValueToNFT (StringToNumber a))
                     else a)
      in \<lparr>currentStep = Details, source = src, currency = cur, sendingNFT = nft,
          amount = amt, destination = None, payment = new_Payment,
          hapticFeedback = haptic, isLoading = False\<rparr>)"

text \<open>\<^verbatim>\<open>setCurrency\<close>.\<close>

definition setCurrency :: "currency_choice \<Rightarrow> send_state \<Rightarrow> send_state" where
  "setCurrency cur st =
     st\<lparr>currency := cur,
        sendingNFT := (case cur of Native s \<Rightarrow> False | TrustLine t \<Rightarrow> isNFT t)\<rparr>"

subsection \<open>Steps\<close>

text \<open>\<^verbatim>\<open>changeStep\<close>: the navigator is told when the step is the summary.\<close>

definition changeStep :: "Steps \<Rightarrow> send_state \<Rightarrow> send_state \<times> event list" where
  "changeStep step st =
     (st\<lparr>currentStep := step\<rparr>, if step = Summary then [mergeOptions] else [])"

text \<open>
  \<^verbatim>\<open>submit\<close>, with the callbacks of its promises run to the end: the state and the events
  once nothing more happens. A promise that is rejected or never settles runs no
  callback (\<^verbatim>\<open>submit\<close> attaches no rejection handler).
\<close>

definition submit :: "services \<Rightarrow> send_state \<Rightarrow> send_state \<times> event list" where
  "submit sv st =
     (let (st1, ev1) = changeStep Submitting st in
      case payment_submit sv (payment st1) of
        Pending \<Rightarrow> (st1, ev1 @ [Called Submit])
      | Rejected e \<Rightarrow> (st1, ev1 @ [Called Submit, Failed Submit])
      | Fulfilled submitResult \<Rightarrow>
          if success submitResult then
            (let st2 = st1\<lparr>currentStep := Verifying\<rparr>;
                 ev2 = ev1 @ [Called Submit, Acknowledged Submit True, Called Verify]
             in case payment_verify sv (payment st2) of
                  Pending \<Rightarrow> (st2, ev2)
                | Rejected e \<Rightarrow> (st2, ev2 @ [Failed Verify])
                | Fulfilled result \<Rightarrow>
                    (let ev3 = ev2 @ [Acknowledged Verify (success result)] @
                           (if hapticFeedback st then
                              (if success result
                               then [VibrateHapticFeedback ''notificationSuccess'']
                               else [VibrateHapticFeedback ''notificationError''])
                            else []);
                         (st3, ev4) = changeStep Result st2
                     in (st3, ev3 @ ev4)))
          else
            (let ev2 = ev1 @ [Called Submit, Acknowledged Submit False] @
                   (if hapticFeedback st then [VibrateHapticFeedback ''notificationError'']
                    else []);
                 (st2, ev3) = changeStep Result st1
             in (st2, ev2 @ ev3)))"

subsection \<open>\<^verbatim>\<open>send\<close>\<close>

text \<open>
  How a part of the \<^verbatim>\<open>try\<close> block ends: it ran through, it threw (a rejected promise
  that is awaited throws its reason), or it waits for a promise that never settles.
\<close>

datatype outcome = Done | Thrown "error option" | Stuck

type_synonym block = "send_state \<Rightarrow> outcome \<times> send_state \<times> event list"

definition then_do :: "outcome \<times> send_state \<times> event list \<Rightarrow> block
    \<Rightarrow> outcome \<times> send_state \<times> event list" where
  "then_do r f =
     (case r of
        (Done, st, ev) \<Rightarrow> (let (r', st', ev') = f st in (r', st', ev @ ev'))
      | _ \<Rightarrow> r)"

text \<open>
  The first part: the amount. \<open>PartialPayment\<close> is \<^verbatim>\<open>txFlags.Payment.PartialPayment\<close>
  and \<open>NFTValueToXRPL\<close> the encoder of \<^verbatim>\<open>@common/utils/amount\<close>, which may throw; neither
  is among the sources. The payment is one object, changed in place: what was assigned
  before an exception stays assigned. Reading \<^verbatim>\<open>source.address\<close> or
  \<^verbatim>\<open>destination.address\<close> of an undefined object throws a \<^verbatim>\<open>TypeError\<close> (its message is the
  runtime's; a short one stands for it).
\<close>

definition send_amount :: "services \<Rightarrow> nat \<Rightarrow> (string \<Rightarrow> error + string) \<Rightarrow> block" where
  "send_amount sv PartialPayment NFTValueToXRPL st =
     (case currency st of
        Native s \<Rightarrow>
          (Done, st\<lparr>payment := (payment st)\<lparr>Amount := Some (NativeAmount (amount st))\<rparr>\<rparr>, [])
      | TrustLine t \<Rightarrow>
          (case getAccountTransferRate sv (issuer t) of
             Pending \<Rightarrow> (Stuck, st, [Called TransferRateLookup])
           | Rejected e \<Rightarrow> (Thrown e, st, [Called TransferRateLookup, Failed TransferRateLookup])
           | Fulfilled transfer_rate \<Rightarrow>
               (let ev = [Called TransferRateLookup, Returned TransferRateLookup];
                    p1 = (if truthy transfer_rate
                          then (payment st)\<lparr>TransferRate := Some transfer_rate\<rparr>
                          else payment st)
                in if \<not> truthy transfer_rate \<and> source st = None then
                     (Thrown (Some (TypeError ''source is undefined'')), st\<lparr>payment := p1\<rparr>, ev)
                   else
                     (let p2 = (if truthy transfer_rate \<or> Some (issuer t) = map_option address (source st)
                                then p1\<lparr>Flags := Some [PartialPayment]\<rparr>
                                else p1)
                      in case (if sendingNFT st then NFTValueToXRPL (amount st)
                               else Inr (amount st)) of
                           Inl e \<Rightarrow> (Thrown (Some e), st\<lparr>payment := p2\<rparr>, ev)
                         | Inr v \<Rightarrow>
                             (Done,
                              st\<lparr>payment :=
                                   p2\<lparr>Amount := Some (IssuedAmount (currency_code t) (issuer t) v)\<rparr>\<rparr>,
                              ev)))))"

text \<open>The destination and the source account.\<close>

definition send_parties :: block where
  "send_parties st =
     (case destination st of
        None \<Rightarrow> (Thrown (Some (TypeError ''destination is undefined'')), st, [])
      | Some d \<Rightarrow>
          (let p1 = (payment st)\<lparr>Destination := Some \<lparr>dest_address = dest_address d, dest_tag = dest_tag d\<rparr>\<rparr>
           in case source st of
                None \<Rightarrow>
                  (Thrown (Some (TypeError ''source is undefined'')), st\<lparr>payment := p1\<rparr>, [])
              | Some a \<Rightarrow> (Done, st\<lparr>payment := p1\<lparr>Account := Some (address a)\<rparr>\<rparr>, [])))"

text \<open>
  \<^verbatim>\<open>await payment.validate(source); await payment.sign(source).then(this.submit)\<close>:
  \<^verbatim>\<open>submit\<close> is the callback of the signing promise.
\<close>

definition send_validate_sign :: "services \<Rightarrow> block" where
  "send_validate_sign sv st =
     (case payment_validate sv (payment st) (source st) of
        Pending \<Rightarrow> (Stuck, st, [Called Validate])
      | Rejected e \<Rightarrow> (Thrown e, st, [Called Validate, Failed Validate])
      | Fulfilled u \<Rightarrow>
          (case payment_sign sv (payment st) (source st) of
             Pending \<Rightarrow> (Stuck, st, [Called Validate, Returned Validate, Called Sign])
           | Rejected e \<Rightarrow>
               (Thrown e, st, [Called Validate, Returned Validate, Called Sign, Failed Sign])
           | Fulfilled u' \<Rightarrow>
               (let (st', ev) = submit sv st
                in (Done, st',
                    [Called Validate, Returned Validate, Called Sign, Returned Sign] @ ev))))"

text \<open>
  \<^verbatim>\<open>send\<close>: the \<^verbatim>\<open>try\<close> block, the \<^verbatim>\<open>catch\<close> block (an alert with the message of a truthy
  reason) and the \<^verbatim>\<open>finally\<close> block, which does not run while the \<^verbatim>\<open>try\<close> block waits.
  The \<^verbatim>\<open>finally\<close> block runs as soon as \<^verbatim>\<open>submit\<close> has returned, before the callbacks of the
  submission; it writes \<^verbatim>\<open>isLoading\<close> only, which no callback reads or writes, so the
  state at the end is the same with the write put last, as here.
\<close>

fun error_message :: "error \<Rightarrow> string" where
  "error_message (Error m) = m"
| "error_message (TypeError m) = m"

definition send :: "services \<Rightarrow> nat \<Rightarrow> (string \<Rightarrow> error + string) \<Rightarrow> send_state
    \<Rightarrow> send_state \<times> event list" where
  "send sv PartialPayment NFTValueToXRPL st =
     (let st1 = st\<lparr>isLoading := True\<rparr>;
          r = then_do (then_do (send_amount sv PartialPayment NFTValueToXRPL st1) send_parties)
                (send_validate_sign sv)
      in case r of
           (Done, st2, ev) \<Rightarrow> (st2\<lparr>isLoading := False\<rparr>, ev)
         | (Thrown None, st2, ev) \<Rightarrow> (st2\<lparr>isLoading := False\<rparr>, ev)
         | (Thrown (Some e), st2, ev) \<Rightarrow>
             (st2\<lparr>isLoading := False\<rparr>, ev @ [showAlertModal (error_message e)])
         | (Stuck, st2, ev) \<Rightarrow> (st2, ev))"

text \<open>\<^verbatim>\<open>goNext\<close> and \<^verbatim>\<open>goBack\<close>.\<close>

definition goNext :: "services \<Rightarrow> nat \<Rightarrow> (string \<Rightarrow> error + string) \<Rightarrow> send_state
    \<Rightarrow> send_state \<times> event list" where
  "goNext sv PartialPayment NFTValueToXRPL st =
     (case currentStep st of
        Result \<Rightarrow> (st, [popToRoot])
      | Details \<Rightarrow> changeStep Recipient st
      | Recipient \<Rightarrow> changeStep Summary st
      | Summary \<Rightarrow> send sv PartialPayment NFTValueToXRPL st
      | _ \<Rightarrow> (st, []))"

definition goBack :: "send_state \<Rightarrow> send_state \<times> event list" where
  "goBack st =
     (case currentStep st of
        Details \<Rightarrow> (st, [pop])
      | Recipient \<Rightarrow> changeStep Details st
      | Summary \<Rightarrow> changeStep Recipient st
      | _ \<Rightarrow> (st, []))"

text \<open>
  \<open>happens_before a b ev\<close>: in the events \<open>ev\<close>, no \<open>b\<close> stands before the first \<open>a\<close>
  (so there is no \<open>b\<close> at all when there is no \<open>a\<close>).
\<close>

definition happens_before :: "event \<Rightarrow> event \<Rightarrow> event list \<Rightarrow> bool" where
  "happens_before a b ev = (b \<notin> set (takeWhile (\<lambda>e. e \<noteq> a) ev))"

subsection \<open>A run of the flow\<close>

text \<open>
  A screen as the constructor builds it for one default account and a trust line of
  another issuer, with a destination chosen; and services that answer at once: the
  issuer's transfer rate is \<open>rate\<close>, validation and signing succeed, and the ledger
  reports \<open>accepted\<close> for the submission and success for the verification.
\<close>

definition example_account :: account where
  "example_account = \<lparr>address = ''rSource'', is_default = True\<rparr>"

definition example_line :: trust_line where
  "example_line = \<lparr>currency_code = ''USD'', issuer = ''rIssuer'', isNFT = False\<rparr>"

definition example_state :: send_state where
  "example_state =
     (SendView_constructor (\<lambda>n. JBool False) [example_account] True
        (Some (TrustLine example_line)) (Some ''10''))
     \<lparr>destination := Some \<lparr>dest_address = ''rDestination'', dest_tag = None\<rparr>\<rparr>"

definition example_services :: "js_value \<Rightarrow> bool \<Rightarrow> services" where
  "example_services rate accepted =
     \<lparr>getAccountTransferRate = (\<lambda>i. Fulfilled rate),
      payment_validate = (\<lambda>p a. Fulfilled ()),
      payment_sign = (\<lambda>p a. Fulfilled ()),
      payment_submit = (\<lambda>p. Fulfilled \<lparr>success = accepted\<rparr>),
      payment_verify = (\<lambda>p. Fulfilled \<lparr>success = True\<rparr>)\<rparr>"

text \<open>
  A second trust line, of an issuer without transfer rate, and services for a retry: the
  issuer of the first line charges a transfer rate and the other issuer none, and the
  validation rejects a payment in the currency of the first line (the balance does not
  cover it) and accepts any other.
\<close>

definition other_line :: trust_line where
  "other_line = \<lparr>currency_code = ''EUR'', issuer = ''rOther'', isNFT = False\<rparr>"

definition retry_services :: services where
  "retry_services =
     \<lparr>getAccountTransferRate =
        (\<lambda>i. Fulfilled (JNum (Fin (if i = ''rIssuer'' then 1005000000 else 0)))),
      payment_validate =
        (\<lambda>p a. case Amount p of
                  Some (IssuedAmount c i v) \<Rightarrow>
                    if c = ''USD'' then Rejected (Some (Error ''insufficient balance''))
                    else Fulfilled ()
                | _ \<Rightarrow> Fulfilled ()),
      payment_sign = (\<lambda>p a. Fulfilled ()),
      payment_submit = (\<lambda>p. Fulfilled \<lparr>success = True\<rparr>),
      payment_verify = (\<lambda>p. Fulfilled \<lparr>success = True\<rparr>)\<rparr>"

text \<open>
  The retry, as the user drives it. \<open>summary_state\<close> is the screen of the example after
  two presses on the next button, at the summary; the third press there is the first
  send. \<open>retry_state\<close> is the screen after that send has failed in the validation, the
  user has gone back to the details, has chosen the other trust line and has come to the
  summary again: the next press there is the second send. The partial-payment flag is
  \<open>131072\<close> (\<^verbatim>\<open>tfPartialPayment\<close>, \<^verbatim>\<open>0x00020000\<close>), and no NFT is sent, so the encoder is
  not called (\<open>Inr\<close> stands for it).
\<close>

definition summary_state :: send_state where
  "summary_state =
     fst (goNext retry_services 131072 Inr (fst (goNext retry_services 131072 Inr example_state)))"

definition retry_state :: send_state where
  "retry_state =
     (let failed = fst (goNext retry_services 131072 Inr summary_state);
          details = fst (goBack (fst (goBack failed)));
          chosen = setCurrency (TrustLine other_line) details
      in fst (goNext retry_services 131072 Inr (fst (goNext retry_services 131072 Inr chosen))))"

section \<open>The Blob field (\<^verbatim>\<open>parser/fields/Blob.ts\<close>)\<close>

text \<open>
  The owning instance \<^verbatim>\<open>self\<close> is a JavaScript object: a map from property names to
  values. Reading a property that is absent gives \<^verbatim>\<open>undefined\<close>.
\<close>

type_synonym js_object = "string \<rightharpoonup> js_value"

definition read_prop :: "js_object \<Rightarrow> string \<Rightarrow> js_value" where
  "read_prop self name = (case self name of None \<Rightarrow> JUndefined | Some v \<Rightarrow> v)"

text \<open>\<^verbatim>\<open>Blob.getter(self, name)()\<close> returns \<^verbatim>\<open>self[name]\<close>.\<close>

definition Blob_getter :: "js_object \<Rightarrow> string \<Rightarrow> js_value" where
  "Blob_getter self name = read_prop self name"

text \<open>
  \<^verbatim>\<open>Blob.setter(self, name)(value)\<close>: the updated object, or the exception thrown (the
  object is then as it was).
\<close>

definition Blob_setter :: "js_object \<Rightarrow> string \<Rightarrow> js_value \<Rightarrow> error + js_object" where
  "Blob_setter self name v =
     (if typeof v = ''undefined'' then Inr (self(name \<mapsto> JUndefined))
      else if typeof v \<noteq> ''string'' then
        Inl (Error (''field '' @ name @ '' required type string, got '' @ typeof v))
      else Inr (self(name \<mapsto> v)))"

section \<open>Evaluation\<close>

text \<open>
  Rules with which the simplifier computes the number and string functions on literals.
\<close>

lemma floor_rat_numeral: "\<lfloor>numeral a / numeral b :: rat\<rfloor> = numeral a div numeral b"
  using floor_divide_of_int_eq [of "numeral a" "numeral b", where ?'a = rat] by simp

lemma replicate_numeral: "replicate (numeral k) x = x # replicate (pred_numeral k) x"
  by (simp add: numeral_eq_Suc)

lemma shortest_digits_numeral:
  "shortest_digits r n0 k (numeral f) =
     (case digits_candidate r n0 k of
        Some res \<Rightarrow> res
      | None \<Rightarrow> shortest_digits r n0 (Suc k) (pred_numeral f))"
  by (simp add: numeral_eq_Suc)

lemmas number_eval =
  replicate_numeral shortest_digits_numeral
  binary64_def binary64_pos_def round_half_even_def ilog2_def ilog10_def pow2_def pow10_def
  digit_count.simps Let_def floor_rat_numeral
  parse_decimal_parts_def parse_unsigned_decimal_def parse_exponent_def parse_radix_def
  is_digit_def digits_value_def digit_value_def
  StringToNumber_def trim_def white_space_def
  nat_digits.simps digit_char_def digits_candidate_def positive_to_string_def format_digits_def
  fixed_notation_def BigNumber_toFixed_def

text \<open>The model of the conversions on some literals, as the runtime answers them.\<close>

lemma Number_checks:
  "StringToNumber ''0.1'' = Fin (3602879701896397 / 2 ^ 55)"
  "StringToNumber ''9007199254740993'' = Fin 9007199254740992"
  "StringToNumber '' 0x1F '' = Fin 31"
  "StringToNumber [CHR 0xC2, CHR 0xA0, CHR ''5'', CHR 0xE2, CHR 0x80, CHR 0xA8] = Fin 5"
  "StringToNumber ''12px'' = NaN"
  "StringToNumber [] = Fin 0"
  by (simp_all add: number_eval)

lemma String_checks:
  "NumberToString (StringToNumber ''0.1'') = ''0.1''"
  "NumberToString (StringToNumber ''0.000001'') = ''0.000001''"
  "NumberToString (StringToNumber ''0.0000001'') = ''1e-7''"
  "NumberToString (StringToNumber ''1000000000000000000000'') = ''1e+21''"
  "NumberToString (StringToNumber ''-1.50'') = ''-1.5''"
  by (simp_all add: number_eval)

section \<open>Properties of the Blob field\<close>

text \<open>
  Claim C1 asks that a defined value which is not a string of an even number of
  hexadecimal characters is rejected and never stored. The setter's only check is
  \<^verbatim>\<open>typeof value !== 'string'\<close> (the hexadecimal check is a TODO comment in the source):
  the string \<^verbatim>\<open>"zz"\<close> is accepted and stored.
\<close>

theorem Blob_setter_stores_non_hex:
  "Blob_setter Map.empty ''MemoData'' (JStr ''zz'') = Inr [''MemoData'' \<mapsto> JStr ''zz'']
   \<and> Blob_getter [''MemoData'' \<mapsto> JStr ''zz''] ''MemoData'' = JStr ''zz''"
  by (simp add: Blob_setter_def Blob_getter_def read_prop_def)

text \<open>
  Claim C9: setting \<^verbatim>\<open>undefined\<close> never throws; the result is the object with exactly
  this slot overwritten by \<^verbatim>\<open>undefined\<close>, and the getter then returns \<^verbatim>\<open>undefined\<close>.
\<close>

theorem Blob_setter_undefined_clears:
  "Blob_setter self name JUndefined = Inr (self(name \<mapsto> JUndefined))
   \<and> Blob_getter (self(name \<mapsto> JUndefined)) name = JUndefined"
  by (simp add: Blob_setter_def Blob_getter_def read_prop_def)

section \<open>Properties of the amount text\<close>

subsection \<open>The literals of the scenarios\<close>

lemma low_literal: "''0.'' @ replicate PRECISION CHR ''0'' @ ''9'' = ''0.000000009''"
  by (simp add: PRECISION_def replicate_numeral)

lemma Number_low: "StringToNumber ''0.000000009'' = Fin (5440166188265831 / 2 ^ 79)"
  by (simp add: number_eval)

lemma Number_1e9: "StringToNumber ''0.000000001'' = Fin (4835703278458517 / 2 ^ 82)"
  by (simp add: number_eval)

lemma String_1e9: "NumberToString (Fin (4835703278458517 / 2 ^ 82)) = ''1e-9''"
  by (simp add: number_eval)

lemma String_Number_1e9: "NumberToString (StringToNumber ''0.000000001'') = ''1e-9''"
  by (simp only: Number_1e9 String_1e9)

lemma Number_1e9_low:
  "js_gt (StringToNumber ''0.000000001'') (Fin 0)"
  "js_lt (StringToNumber ''0.000000001'') (StringToNumber ''0.000000009'')"
  by (simp_all add: Number_1e9 Number_low js_gt_def)

lemma test_1e9: "regexp_test exponent_regexp ''1e-9''"
  by (simp add: exponent_regexp_def Opt_def Plus_def)

lemma toFixed_1e9: "BigNumber_toFixed ''1e-9'' = Some ''0.000000001''"
  by (simp add: number_eval)

lemma Number_1e81: "StringToNumber ''1e-81'' = Fin (1067993517960455 / 2 ^ 319)"
  by (simp add: number_eval)

lemma Number_1e81_low:
  "js_gt (StringToNumber ''1e-81'') (Fin 0)"
  "js_lt (StringToNumber ''1e-81'') (StringToNumber ''0.000000009'')"
  "StringToNumber ''1e-81'' \<noteq> Fin 0"
  by (simp_all add: Number_1e81 Number_low js_gt_def)

lemma Number_2e9: "StringToNumber ''0.000000002'' = Fin (4835703278458517 / 2 ^ 81)"
  by (simp add: number_eval)

lemma Number_2e9_low:
  "js_gt (StringToNumber ''0.000000002'') (Fin 0)"
  "js_lt (StringToNumber ''0.000000002'') (StringToNumber ''0.000000009'')"
  "sample_decoder (StringToNumber ''0.000000002'') = JBool False"
  by (simp_all add: Number_2e9 Number_low js_gt_def sample_decoder_def)

lemma Number_150000: "StringToNumber ''150000'' = Fin 150000"
  by (simp add: number_eval)

lemma String_150000: "NumberToString (Fin 150000) = ''150000''"
  by (simp add: number_eval)

lemma Number_99999: "StringToNumber ''99999'' = Fin 99999"
  by (simp add: number_eval)

lemma String_99999: "NumberToString (Fin 99999) = ''99999''"
  by (simp add: number_eval)

lemma Number_99999_5: "StringToNumber ''99999.5'' = Fin (199999 / 2)"
  by (simp add: number_eval)

lemma trunc_99999_5: "Math_trunc (Fin (199999 / 2)) = Fin 99999"
  by (simp add: floor_rat_numeral)

lemma String_0: "NumberToString (Fin 0) = ''0''"
  by simp

text \<open>What the sample decoder answers for the numbers of the runs.\<close>

lemma sample_decoder_values:
  "sample_decoder (StringToNumber ''1e-81'') = JNum (Fin 1)"
  "sample_decoder (StringToNumber ''0.000000001'') = JBool False"
  "sample_decoder (Fin 150000) = JBool False"
  "sample_decoder (Fin 99999) = JBool False"
  "sample_decoder (Fin (199999 / 2)) = JBool False"
  by (simp_all add: sample_decoder_def Number_1e81 Number_1e9 js_gt_def)

subsection \<open>The branches of the derivation\<close>

lemma js_gt_nonzero: "js_gt v (Fin 0) \<Longrightarrow> v \<noteq> Fin 0"
  by (cases v) (simp_all add: js_gt_def)

lemma js_gt_MAX_not_low:
  "js_gt v MAX_VALUE \<Longrightarrow> v \<noteq> Fin 0 \<and> \<not> js_lt v (StringToNumber ''0.000000009'')"
  by (cases v) (simp_all add: js_gt_def MAX_VALUE_def Number_low)

lemma derive_zero:
  assumes "Number_of_value nextValue = Fin 0"
  shows "getDerivedStateFromProps XRPLValueToNFT formatNumber nextValue prevState =
           (if originalValue prevState = JStr (String_of_value nextValue) then None
            else Some \<lparr>set_originalValue = JStr ''0'', set_value = JStr ''0'',
                        set_truncated = None\<rparr>)"
  using assms by (simp add: getDerivedStateFromProps_def)

lemma derive_NFT:
  assumes "Number_of_value nextValue \<noteq> Fin 0"
    and "truthy (XRPLValueToNFT (Number_of_value nextValue))"
  shows "getDerivedStateFromProps XRPLValueToNFT formatNumber nextValue prevState =
           (if originalValue prevState = JStr (String_of_value nextValue) then None
            else Some \<lparr>set_originalValue = JStr (NumberToString (Number_of_value nextValue)),
                        set_value = XRPLValueToNFT (Number_of_value nextValue),
                        set_truncated = None\<rparr>)"
  using assms by (simp add: getDerivedStateFromProps_def Let_def)

lemma derive_high:
  assumes "js_gt (Number_of_value nextValue) MAX_VALUE"
    and "\<not> truthy (XRPLValueToNFT (Number_of_value nextValue))"
  shows "getDerivedStateFromProps XRPLValueToNFT formatNumber nextValue prevState =
           (if originalValue prevState = JStr (String_of_value nextValue)
               \<or> shownValue prevState = JStr (formatNumber (Math_trunc (Number_of_value nextValue)))
            then None
            else Some \<lparr>set_originalValue = JStr (NumberToString (Number_of_value nextValue)),
                        set_value = JStr (formatNumber (Math_trunc (Number_of_value nextValue))),
                        set_truncated = Some (Some HIGH)\<rparr>)"
  using assms js_gt_MAX_not_low [OF assms(1)]
  unfolding getDerivedStateFromProps_def low_literal
  by (auto simp: Let_def)

lemma derive_low:
  assumes "js_gt (Number_of_value nextValue) (Fin 0)"
    and "js_lt (Number_of_value nextValue) (StringToNumber ''0.000000009'')"
    and "\<not> truthy (XRPLValueToNFT (Number_of_value nextValue))"
  shows "getDerivedStateFromProps XRPLValueToNFT formatNumber nextValue prevState =
           (if originalValue prevState = JStr (String_of_value nextValue)
               \<or> shownValue prevState = JStr zero_ellipsis
            then None
            else Some \<lparr>set_originalValue = JStr (NumberToString (Number_of_value nextValue)),
                        set_value = JStr zero_ellipsis,
                        set_truncated = Some (Some LOW)\<rparr>)"
  using assms js_gt_nonzero [OF assms(1)]
  unfolding getDerivedStateFromProps_def low_literal
  by (auto simp: Let_def)

text \<open>The last branch: a number that is neither zero, nor an NFT, nor low, nor high.\<close>

lemma derive_plain:
  assumes "Number_of_value nextValue \<noteq> Fin 0"
    and "\<not> truthy (XRPLValueToNFT (Number_of_value nextValue))"
    and "\<not> js_lt (Number_of_value nextValue) (StringToNumber ''0.000000009'')"
    and "\<not> js_gt (Number_of_value nextValue) MAX_VALUE"
  shows "getDerivedStateFromProps XRPLValueToNFT formatNumber nextValue prevState =
           (if originalValue prevState = JStr (String_of_value nextValue)
               \<or> shownValue prevState = JStr (formatNumber (Number_of_value nextValue))
            then None
            else Some \<lparr>set_originalValue = JStr (NumberToString (Number_of_value nextValue)),
                        set_value = JStr (formatNumber (Number_of_value nextValue)),
                        set_truncated = Some None\<rparr>)"
  using assms
  unfolding getDerivedStateFromProps_def low_literal
  by (auto simp: Let_def)

lemma alert_1e9:
  assumes "originalValue st = JStr ''1e-9''"
  shows "alertOriginalValue st = Some ''0.000000001''"
proof -
  have "JS_String (originalValue st) = ''1e-9''"
    using assms by simp
  then show ?thesis
    unfolding alertOriginalValue_def Let_def
    by (simp only: test_1e9 toFixed_1e9 if_True)
qed

lemma alert_0:
  assumes "originalValue st = JStr ''0''"
  shows "alertOriginalValue st = Some ''0''"
  using assms by (simp add: alertOriginalValue_def exponent_regexp_def Opt_def Plus_def)

subsection \<open>The states of the runs\<close>

text \<open>The state after a value, from what the derivation returns for it.\<close>

lemma next_state_Some:
  assumes "getDerivedStateFromProps d f v st = Some u"
  shows "next_state d f v st =
           st\<lparr>originalValue := set_originalValue u, shownValue := set_value u,
              truncated := (case set_truncated u of None \<Rightarrow> truncated st | Some t \<Rightarrow> t)\<rparr>"
  using assms by (simp add: next_state_def apply_update_def)

lemma next_state_None:
  assumes "getDerivedStateFromProps d f v st = None"
  shows "next_state d f v st = st"
  using assms by (simp add: next_state_def apply_update_def)

text \<open>The component after its first value: a low amount, a high amount, the amount 99999.\<close>

lemma after_low:
  "next_state sample_decoder formatNumber (StringValue ''0.000000001'') initial_state =
     \<lparr>originalValue = JStr ''1e-9'', shownValue = JStr zero_ellipsis, truncated = Some LOW,
      showOriginalValue = False\<rparr>"
proof -
  have "getDerivedStateFromProps sample_decoder formatNumber (StringValue ''0.000000001'')
          initial_state =
        Some \<lparr>set_originalValue = JStr ''1e-9'', set_value = JStr zero_ellipsis,
              set_truncated = Some (Some LOW)\<rparr>"
    using derive_low [where nextValue = "StringValue ''0.000000001''"
        and XRPLValueToNFT = sample_decoder and formatNumber = formatNumber
        and prevState = initial_state]
      Number_1e9_low
    by (simp add: sample_decoder_values String_Number_1e9 initial_state_def zero_ellipsis_def)
  then show ?thesis
    by (simp add: next_state_def apply_update_def initial_state_def)
qed

lemma after_high:
  "next_state sample_decoder formatNumber (StringValue ''150000'') initial_state =
     (if formatNumber (Fin 150000) = [] then initial_state
      else \<lparr>originalValue = JStr ''150000'', shownValue = JStr (formatNumber (Fin 150000)),
            truncated = Some HIGH, showOriginalValue = False\<rparr>)"
proof -
  have "getDerivedStateFromProps sample_decoder formatNumber (StringValue ''150000'')
          initial_state =
        (if formatNumber (Fin 150000) = [] then None
         else Some \<lparr>set_originalValue = JStr ''150000'',
                     set_value = JStr (formatNumber (Fin 150000)),
                     set_truncated = Some (Some HIGH)\<rparr>)"
    using derive_high [where nextValue = "StringValue ''150000''"
        and XRPLValueToNFT = sample_decoder and formatNumber = formatNumber
        and prevState = initial_state]
    by (auto simp: sample_decoder_values Number_150000 String_150000 initial_state_def
        js_gt_def MAX_VALUE_def simp del: NumberToString.simps)
  then show ?thesis
    by (simp add: next_state_def apply_update_def initial_state_def)
qed

lemma after_99999:
  "next_state sample_decoder formatNumber (StringValue ''99999'') initial_state =
     (if formatNumber (Fin 99999) = [] then initial_state
      else \<lparr>originalValue = JStr ''99999'', shownValue = JStr (formatNumber (Fin 99999)),
            truncated = None, showOriginalValue = False\<rparr>)"
proof -
  have "getDerivedStateFromProps sample_decoder formatNumber (StringValue ''99999'')
          initial_state =
        (if formatNumber (Fin 99999) = [] then None
         else Some \<lparr>set_originalValue = JStr ''99999'',
                     set_value = JStr (formatNumber (Fin 99999)),
                     set_truncated = Some None\<rparr>)"
    using derive_plain [where nextValue = "StringValue ''99999''"
        and XRPLValueToNFT = sample_decoder and formatNumber = formatNumber
        and prevState = initial_state]
    by (auto simp: sample_decoder_values Number_99999 String_99999 Number_low initial_state_def
        js_gt_def MAX_VALUE_def simp del: NumberToString.simps)
  then show ?thesis
    by (simp add: next_state_def apply_update_def initial_state_def)
qed

text \<open>
  A low amount after another low amount. The derivation ends with \<^verbatim>\<open>return null\<close> when
  the new display value is the one the state shows, and \<^verbatim>\<open>'0\<dots>'\<close> is the display value of
  every low amount: a component that shows \<^verbatim>\<open>"0.000000001"\<close> and then receives
  \<^verbatim>\<open>"0.000000002"\<close> keeps the original value of the first amount, and a press on it shows
  the alert with the first amount.
\<close>

lemma low_after_low_keeps_original_value:
  "getDerivedStateFromProps sample_decoder formatNumber (StringValue ''0.000000002'')
     (next_state sample_decoder formatNumber (StringValue ''0.000000001'') initial_state) = None
   \<and> snd (onPress (next_state sample_decoder formatNumber (StringValue ''0.000000002'')
        (next_state sample_decoder formatNumber (StringValue ''0.000000001'') initial_state))) =
      Alert (Some ''0.000000001'')"
proof -
  let ?s1 = "next_state sample_decoder formatNumber (StringValue ''0.000000001'') initial_state"
  have d: "getDerivedStateFromProps sample_decoder formatNumber (StringValue ''0.000000002'') ?s1 =
      None"
    unfolding after_low
    using derive_low [where nextValue = "StringValue ''0.000000002''"
        and XRPLValueToNFT = sample_decoder and formatNumber = formatNumber]
    by (simp add: Number_2e9_low)
  have "next_state sample_decoder formatNumber (StringValue ''0.000000002'') ?s1 = ?s1"
    using d by (rule next_state_None)
  then have "snd (onPress (next_state sample_decoder formatNumber (StringValue ''0.000000002'')
      ?s1)) = snd (onPress ?s1)"
    by (rule arg_cong)
  also have "\<dots> = Alert (Some ''0.000000001'')"
    unfolding after_low by (simp add: onPress_def alert_1e9)
  finally show ?thesis
    using d by (intro conjI)
qed

subsection \<open>The claims\<close>




text \<open>
  Claim C6 asks the flag \<^verbatim>\<open>'HIGH'\<close> for every value above 99999 that is no NFT. The code
  misses it where the display value does not change: the derivation ends with
  \<^verbatim>\<open>return null\<close> when the new display value is the one the state shows, and the flag is
  then not written. A component that shows 99999 (not above the maximum, no flag) and
  then receives 99999.5 computes the display value of \<^verbatim>\<open>Math.trunc(99999.5)\<close>, which is the
  one it shows: the derivation returns \<^verbatim>\<open>null\<close>, the value above the maximum is shown
  truncated and without the flag, and a press on it does nothing. This holds for every
  formatter.
\<close>

theorem high_amount_after_maximum_has_no_flag:
  "js_gt (Number_of_value (StringValue ''99999.5'')) MAX_VALUE
   \<and> \<not> truthy (sample_decoder (Number_of_value (StringValue ''99999.5'')))
   \<and> getDerivedStateFromProps sample_decoder formatNumber (StringValue ''99999.5'')
        (next_state sample_decoder formatNumber (StringValue ''99999'') initial_state) = None
   \<and> truncated (next_state sample_decoder formatNumber (StringValue ''99999.5'')
        (next_state sample_decoder formatNumber (StringValue ''99999'') initial_state)) = None
   \<and> shownValue (next_state sample_decoder formatNumber (StringValue ''99999.5'')
        (next_state sample_decoder formatNumber (StringValue ''99999'') initial_state)) =
      JStr (formatNumber (Math_trunc (Number_of_value (StringValue ''99999.5''))))
   \<and> onPress (next_state sample_decoder formatNumber (StringValue ''99999.5'')
        (next_state sample_decoder formatNumber (StringValue ''99999'') initial_state)) =
      (next_state sample_decoder formatNumber (StringValue ''99999.5'')
        (next_state sample_decoder formatNumber (StringValue ''99999'') initial_state), NoAlert)"
proof -
  let ?s1 = "next_state sample_decoder formatNumber (StringValue ''99999'') initial_state"
  let ?s2 = "next_state sample_decoder formatNumber (StringValue ''99999.5'') ?s1"
  have gt: "js_gt (Number_of_value (StringValue ''99999.5'')) MAX_VALUE"
    by (simp add: Number_99999_5 js_gt_def MAX_VALUE_def)
  have nf: "\<not> truthy (sample_decoder (Number_of_value (StringValue ''99999.5'')))"
    by (simp add: Number_99999_5 sample_decoder_values)
  have s1: "shownValue ?s1 = JStr (formatNumber (Fin 99999))"
    "truncated ?s1 = None"
    by (simp_all only: after_99999) (simp_all add: initial_state_def)
  have tr: "Math_trunc (Number_of_value (StringValue ''99999.5'')) = Fin 99999"
    by (simp add: Number_99999_5 floor_rat_numeral)
  have d: "getDerivedStateFromProps sample_decoder formatNumber (StringValue ''99999.5'') ?s1 =
      None"
    using derive_high [where nextValue = "StringValue ''99999.5''"
        and XRPLValueToNFT = sample_decoder and formatNumber = formatNumber
        and prevState = ?s1, OF gt nf] s1 tr
    by simp
  have same: "?s2 = ?s1"
    using d by (rule next_state_None)
  have t: "truncated ?s2 = None"
    unfolding same by (rule s1)
  have v: "shownValue ?s2 =
      JStr (formatNumber (Math_trunc (Number_of_value (StringValue ''99999.5''))))"
    unfolding same tr by (rule s1)
  have p: "onPress ?s2 = (?s2, NoAlert)"
    using t by (simp add: onPress_def)
  show ?thesis
    by (intro conjI gt nf d t v p)
qed

text \<open>
  Claim C7 asks that the zero is displayed with no truncated flag set. The object that
  the zero branch returns has no key \<^verbatim>\<open>truncated\<close> (the branch of the thresholds always
  writes the key), so the merge keeps the flag of the value shown before. A component
  that shows the low amount \<^verbatim>\<open>"0.000000001"\<close> and then receives 0 shows \<^verbatim>\<open>"0"\<close> with the flag
  \<^verbatim>\<open>'LOW'\<close> still set, and a press on it raises the alert of a too small amount, for the
  amount 0. The other parts of the claim hold: the zero branch does not call the decoder,
  and the value shown is \<^verbatim>\<open>"0"\<close>. This holds for every formatter.
\<close>

theorem zero_after_low_amount_keeps_flag:
  "Number_of_value (NumberValue (Fin 0)) = Fin 0
   \<and> getDerivedStateFromProps sample_decoder formatNumber (NumberValue (Fin 0))
        (next_state sample_decoder formatNumber (StringValue ''0.000000001'') initial_state) =
      Some \<lparr>set_originalValue = JStr ''0'', set_value = JStr ''0'', set_truncated = None\<rparr>
   \<and> next_state sample_decoder formatNumber (NumberValue (Fin 0))
        (next_state sample_decoder formatNumber (StringValue ''0.000000001'') initial_state) =
      \<lparr>originalValue = JStr ''0'', shownValue = JStr ''0'', truncated = Some LOW,
       showOriginalValue = False\<rparr>
   \<and> snd (onPress (next_state sample_decoder formatNumber (NumberValue (Fin 0))
        (next_state sample_decoder formatNumber (StringValue ''0.000000001'') initial_state))) =
      Alert (Some ''0'')"
proof -
  let ?s1 = "next_state sample_decoder formatNumber (StringValue ''0.000000001'') initial_state"
  let ?s2 = "next_state sample_decoder formatNumber (NumberValue (Fin 0)) ?s1"
  have z: "Number_of_value (NumberValue (Fin 0)) = Fin 0"
    by simp
  have d: "getDerivedStateFromProps sample_decoder formatNumber (NumberValue (Fin 0)) ?s1 =
      Some \<lparr>set_originalValue = JStr ''0'', set_value = JStr ''0'', set_truncated = None\<rparr>"
    using derive_zero [where nextValue = "NumberValue (Fin 0)"
        and XRPLValueToNFT = sample_decoder and formatNumber = formatNumber
        and prevState = ?s1, OF z]
    by (simp add: after_low)
  have s2: "?s2 =
      \<lparr>originalValue = JStr ''0'', shownValue = JStr ''0'', truncated = Some LOW,
       showOriginalValue = False\<rparr>"
    unfolding next_state_Some [OF d] by (simp add: after_low)
  have p: "snd (onPress ?s2) = Alert (Some ''0'')"
    unfolding s2 by (simp add: onPress_def alert_0)
  show ?thesis
    by (intro conjI z d s2 p)
qed

text \<open>
  Claim C10 asks that for a value taken for an NFT the truncated flag is never set. The
  display value is the decoder's result, whatever the magnitude, and neither threshold
  is applied; but the object that the NFT branch returns has no key \<^verbatim>\<open>truncated\<close>, so the
  merge keeps the flag of the value shown before (the same omission as in the zero
  branch). A component that shows 150000 with the flag \<^verbatim>\<open>'HIGH'\<close> and then receives the
  value \<^verbatim>\<open>"1e-81"\<close>, which the decoder takes for the NFT 1, shows the NFT with the flag
  \<^verbatim>\<open>'HIGH'\<close> still set, and a press on it switches to the original value. This holds for
  every formatter that gives a text for 150000 (for the empty text the first value is
  not shown at all).
\<close>

theorem NFT_after_high_amount_keeps_flag:
  assumes "formatNumber (Fin 150000) \<noteq> []"
  shows "Number_of_value (StringValue ''1e-81'') \<noteq> Fin 0
   \<and> truthy (sample_decoder (Number_of_value (StringValue ''1e-81'')))
   \<and> truncated (next_state sample_decoder formatNumber (StringValue ''150000'') initial_state) =
      Some HIGH
   \<and> getDerivedStateFromProps sample_decoder formatNumber (StringValue ''1e-81'')
        (next_state sample_decoder formatNumber (StringValue ''150000'') initial_state) =
      Some \<lparr>set_originalValue = JStr (NumberToString (Number_of_value (StringValue ''1e-81''))),
            set_value = sample_decoder (Number_of_value (StringValue ''1e-81'')),
            set_truncated = None\<rparr>
   \<and> shownValue (next_state sample_decoder formatNumber (StringValue ''1e-81'')
        (next_state sample_decoder formatNumber (StringValue ''150000'') initial_state)) =
      JNum (Fin 1)
   \<and> truncated (next_state sample_decoder formatNumber (StringValue ''1e-81'')
        (next_state sample_decoder formatNumber (StringValue ''150000'') initial_state)) =
      Some HIGH
   \<and> showOriginalValue (fst (onPress (next_state sample_decoder formatNumber
        (StringValue ''1e-81'')
        (next_state sample_decoder formatNumber (StringValue ''150000'') initial_state))))"
proof -
  let ?s1 = "next_state sample_decoder formatNumber (StringValue ''150000'') initial_state"
  let ?s2 = "next_state sample_decoder formatNumber (StringValue ''1e-81'') ?s1"
  have nz: "Number_of_value (StringValue ''1e-81'') \<noteq> Fin 0"
    and tr: "truthy (sample_decoder (Number_of_value (StringValue ''1e-81'')))"
    by (simp_all add: Number_1e81_low sample_decoder_values)
  have s1: "?s1 = \<lparr>originalValue = JStr ''150000'', shownValue = JStr (formatNumber (Fin 150000)),
            truncated = Some HIGH, showOriginalValue = False\<rparr>"
    using assms by (simp add: after_high)
  have t1: "truncated ?s1 = Some HIGH"
    unfolding s1 by simp
  have ov: "originalValue ?s1 \<noteq> JStr (String_of_value (StringValue ''1e-81''))"
    unfolding s1 by simp
  have d: "getDerivedStateFromProps sample_decoder formatNumber (StringValue ''1e-81'') ?s1 =
      Some \<lparr>set_originalValue = JStr (NumberToString (Number_of_value (StringValue ''1e-81''))),
            set_value = sample_decoder (Number_of_value (StringValue ''1e-81'')),
            set_truncated = None\<rparr>"
    using derive_NFT [where nextValue = "StringValue ''1e-81''"
        and XRPLValueToNFT = sample_decoder and formatNumber = formatNumber
        and prevState = ?s1, OF nz tr] ov
    by (simp only: if_False)
  have v: "shownValue ?s2 = JNum (Fin 1)"
    unfolding next_state_Some [OF d] by (simp add: sample_decoder_values)
  have t: "truncated ?s2 = Some HIGH"
    unfolding next_state_Some [OF d] using t1 by simp
  have "showOriginalValue ?s2 = showOriginalValue ?s1"
    unfolding next_state_Some [OF d] by simp
  then have o: "\<not> showOriginalValue ?s2"
    by (simp add: s1)
  have p: "showOriginalValue (fst (onPress ?s2))"
    using t o by (simp add: onPress_def)
  show ?thesis
    by (intro conjI nz tr t1 d v t p)
qed

theorem NFT_after_high_amount_keeps_flag_witness:
  "NumberToString (Fin 150000) \<noteq> []
   \<and> truthy (sample_decoder (Number_of_value (StringValue ''1e-81'')))
   \<and> next_state sample_decoder NumberToString (StringValue ''150000'') initial_state =
       \<lparr>originalValue = JStr ''150000'', shownValue = JStr ''150000'', truncated = Some HIGH,
        showOriginalValue = False\<rparr>
   \<and> shownValue (next_state sample_decoder NumberToString (StringValue ''1e-81'')
        (next_state sample_decoder NumberToString (StringValue ''150000'') initial_state)) =
      JNum (Fin 1)
   \<and> truncated (next_state sample_decoder NumberToString (StringValue ''1e-81'')
        (next_state sample_decoder NumberToString (StringValue ''150000'') initial_state)) =
      Some HIGH
   \<and> showOriginalValue (fst (onPress (next_state sample_decoder NumberToString
        (StringValue ''1e-81'')
        (next_state sample_decoder NumberToString (StringValue ''150000'') initial_state))))"
proof -
  have f: "NumberToString (Fin 150000) \<noteq> []"
    by (simp only: String_150000) simp
  note t = NFT_after_high_amount_keeps_flag [where formatNumber = NumberToString, OF f]
  have s1: "next_state sample_decoder NumberToString (StringValue ''150000'') initial_state =
       \<lparr>originalValue = JStr ''150000'', shownValue = JStr ''150000'', truncated = Some HIGH,
        showOriginalValue = False\<rparr>"
    by (simp only: after_high String_150000) simp
  show ?thesis
    using t by (intro conjI f s1) blast+
qed

section \<open>Properties of the send screen\<close>

subsection \<open>What each part of \<^verbatim>\<open>send\<close> does\<close>

lemma submit_payment: "payment (fst (submit sv st)) = payment st"
  by (auto simp: submit_def changeStep_def Let_def split: promise.splits)

lemma parties_Flags: "Flags (payment (fst (snd (send_parties st)))) = Flags (payment st)"
  by (auto simp: send_parties_def Let_def split: option.splits)

lemma vs_payment: "payment (fst (snd (send_validate_sign sv st))) = payment st"
  using submit_payment [of sv st]
  by (auto simp: send_validate_sign_def split: option.splits promise.splits prod.splits)

lemma send_Flags:
  "Flags (payment (fst (send sv pp enc st))) =
   Flags (payment (fst (snd (send_amount sv pp enc (st\<lparr>isLoading := True\<rparr>)))))"
proof -
  obtain o1 s1 e1 where A: "send_amount sv pp enc (st\<lparr>isLoading := True\<rparr>) = (o1, s1, e1)"
    by (metis prod_cases3)
  obtain o2 s2 e2 where B: "send_parties s1 = (o2, s2, e2)"
    by (metis prod_cases3)
  obtain o3 s3 e3 where C: "send_validate_sign sv s2 = (o3, s3, e3)"
    by (metis prod_cases3)
  have F2: "Flags (payment s2) = Flags (payment s1)"
    using parties_Flags [of s1] B by simp
  have F3: "payment s3 = payment s2"
    using vs_payment [of sv s2] C by simp
  show ?thesis
  proof (cases "o1 = Done \<and> o2 = Done")
    case True
    then show ?thesis
      using A B C F2 F3 by (cases o3) (auto simp: send_def then_do_def split: option.splits)
  next
    case False
    then show ?thesis
      using A B F2 by (cases o1; cases o2) (auto simp: send_def then_do_def split: option.splits)
  qed
qed

lemma amount_Flags:
  assumes "currency st = TrustLine t"
    and "getAccountTransferRate sv (issuer t) = Fulfilled rate"
    and "source st = Some a"
  shows "Flags (payment (fst (snd (send_amount sv pp enc st)))) =
           (if truthy rate \<or> issuer t = address a then Some [pp] else Flags (payment st))"
  using assms by (auto simp: send_amount_def Let_def split: sum.splits)

subsection \<open>The events of a run\<close>

lemma hb_absent: "b \<notin> set ev \<Longrightarrow> happens_before a b ev"
  unfolding happens_before_def by (meson set_takeWhileD)

lemma hb_skip:
  assumes "a \<notin> set xs" and "b \<notin> set xs"
  shows "happens_before a b (xs @ ys) = happens_before a b ys"
proof -
  have "takeWhile (\<lambda>e. e \<noteq> a) (xs @ ys) = xs @ takeWhile (\<lambda>e. e \<noteq> a) ys"
    using assms(1) by (intro takeWhile_append2) auto
  with assms(2) show ?thesis
    by (simp add: happens_before_def)
qed

lemma hb_tail:
  assumes "happens_before a b xs" and "b \<notin> set ys"
  shows "happens_before a b (xs @ ys)"
proof (cases "a \<in> set xs")
  case True
  then have "takeWhile (\<lambda>e. e \<noteq> a) (xs @ ys) = takeWhile (\<lambda>e. e \<noteq> a) xs"
    by (simp add: takeWhile_append1)
  with assms show ?thesis
    by (simp add: happens_before_def)
next
  case False
  then have "takeWhile (\<lambda>e. e \<noteq> a) xs = xs"
    by (auto simp: takeWhile_eq_all_conv)
  with assms have "b \<notin> set xs"
    by (simp add: happens_before_def)
  with assms(2) show ?thesis
    by (simp add: hb_absent)
qed

lemma submit_events:
  "snd (submit sv st) = [Called Submit]
   \<or> snd (submit sv st) = [Called Submit, Failed Submit]
   \<or> (\<exists>t. snd (submit sv st) = [Called Submit, Acknowledged Submit True, Called Verify] @ t
          \<and> Called Verify \<notin> set t \<and> Called Submit \<notin> set t \<and> Called Sign \<notin> set t)
   \<or> (\<exists>t. snd (submit sv st) = [Called Submit, Acknowledged Submit False] @ t
          \<and> Called Verify \<notin> set t \<and> Called Submit \<notin> set t \<and> Called Sign \<notin> set t)"
  by (auto simp: submit_def changeStep_def Let_def split: promise.splits)

lemma submit_hb:
  "happens_before (Acknowledged Submit True) (Called Verify) (snd (submit sv st))"
  "Called Sign \<notin> set (snd (submit sv st))"
  "happens_before (Returned Sign) (Called Submit)
     ([Called Validate, Returned Validate, Called Sign, Returned Sign] @ snd (submit sv st))"
  using submit_events [of sv st]
  by (auto simp: happens_before_def dest: set_takeWhileD)

lemma vs_events:
  "(\<exists>st' ev. send_validate_sign sv st =
        (Done, st', [Called Validate, Returned Validate, Called Sign, Returned Sign] @ ev)
      \<and> submit sv st = (st', ev))
   \<or> (fst (send_validate_sign sv st) \<noteq> Done \<and>
       snd (snd (send_validate_sign sv st)) \<in>
        {[], [Called Validate], [Called Validate, Failed Validate],
         [Called Validate, Returned Validate, Called Sign],
         [Called Validate, Returned Validate, Called Sign, Failed Sign]})"
  by (auto simp: send_validate_sign_def split: option.splits promise.splits prod.splits)

lemma amount_events:
  "set (snd (snd (send_amount sv pp enc st))) \<subseteq>
     {Called TransferRateLookup, Returned TransferRateLookup, Failed TransferRateLookup}"
  by (auto simp: send_amount_def Let_def split: currency_choice.splits promise.splits sum.splits)

lemma parties_events: "snd (snd (send_parties st)) = []"
  by (auto simp: send_parties_def Let_def split: option.splits)

lemma vs_hb:
  "happens_before (Returned Validate) (Called Sign) (snd (snd (send_validate_sign sv st)))"
  "happens_before (Returned Sign) (Called Submit) (snd (snd (send_validate_sign sv st)))"
  "happens_before (Acknowledged Submit True) (Called Verify) (snd (snd (send_validate_sign sv st)))"
proof -
  show "happens_before (Returned Validate) (Called Sign) (snd (snd (send_validate_sign sv st)))"
    using vs_events [of sv st] by (auto simp: happens_before_def)
  show "happens_before (Returned Sign) (Called Submit) (snd (snd (send_validate_sign sv st)))"
    using vs_events [of sv st] submit_hb(3) [of sv st]
    by (auto simp: happens_before_def simp del: takeWhile.simps append.simps)
       (auto simp: happens_before_def)
  show "happens_before (Acknowledged Submit True) (Called Verify) (snd (snd (send_validate_sign sv st)))"
    using vs_events [of sv st] submit_hb(1) [of sv st]
    by (auto simp: hb_skip [of _ "[Called Validate, Returned Validate, Called Sign, Returned Sign]", simplified])
       (auto simp: happens_before_def)
qed

text \<open>
  The events of \<^verbatim>\<open>send\<close>: those of the transfer-rate lookup, then those of validation,
  signing and submission (if the run gets there), then the alert of the \<^verbatim>\<open>catch\<close> block
  (if there is one).
\<close>

lemma send_events:
  "\<exists>pre mid post. snd (send sv pp enc st) = pre @ mid @ post
     \<and> set pre \<subseteq> {Called TransferRateLookup, Returned TransferRateLookup, Failed TransferRateLookup}
     \<and> set post \<subseteq> range showAlertModal
     \<and> (mid = [] \<or> (\<exists>s. mid = snd (snd (send_validate_sign sv s))))"
proof -
  let ?T = "{Called TransferRateLookup, Returned TransferRateLookup, Failed TransferRateLookup}"
  obtain o1 s1 e1 where A: "send_amount sv pp enc (st\<lparr>isLoading := True\<rparr>) = (o1, s1, e1)"
    by (metis prod_cases3)
  have E1: "set e1 \<subseteq> ?T"
    using amount_events [of sv pp enc "st\<lparr>isLoading := True\<rparr>"] A by simp
  obtain o2 s2 e2 where B: "send_parties s1 = (o2, s2, e2)"
    by (metis prod_cases3)
  have E2: "e2 = []"
    using parties_events [of s1] B by simp
  obtain o3 s3 e3 where C: "send_validate_sign sv s2 = (o3, s3, e3)"
    by (metis prod_cases3)
  have shape: "\<exists>mid post. snd (send sv pp enc st) = e1 @ mid @ post
      \<and> set post \<subseteq> range showAlertModal \<and> (mid = [] \<or> mid = e3)"
  proof (cases "o1 = Done \<and> o2 = Done")
    case True
    then have "snd (send sv pp enc st) = e1 @ e3 @ []
        \<or> (\<exists>m. snd (send sv pp enc st) = e1 @ e3 @ [showAlertModal m])"
      using A B C E2 by (cases o3) (auto simp: send_def then_do_def split: option.splits)
    then show ?thesis
    proof (elim disjE exE)
      assume "snd (send sv pp enc st) = e1 @ e3 @ []"
      then show ?thesis
        by - (rule exI [of _ e3], rule exI [of _ "[]"], simp)
    next
      fix m
      assume "snd (send sv pp enc st) = e1 @ e3 @ [showAlertModal m]"
      then show ?thesis
        by - (rule exI [of _ e3], rule exI [of _ "[showAlertModal m]"], simp)
    qed
  next
    case False
    then have "snd (send sv pp enc st) = e1 @ [] @ []
        \<or> (\<exists>m. snd (send sv pp enc st) = e1 @ [] @ [showAlertModal m])"
      using A B E2 by (cases o1; cases o2) (auto simp: send_def then_do_def split: option.splits)
    then show ?thesis
    proof (elim disjE exE)
      assume "snd (send sv pp enc st) = e1 @ [] @ []"
      then show ?thesis
        by - (rule exI [of _ "[]"], rule exI [of _ "[]"], simp)
    next
      fix m
      assume "snd (send sv pp enc st) = e1 @ [] @ [showAlertModal m]"
      then show ?thesis
        by - (rule exI [of _ "[]"], rule exI [of _ "[showAlertModal m]"], simp)
    qed
  qed
  then obtain mid post where "snd (send sv pp enc st) = e1 @ mid @ post"
    and "set post \<subseteq> range showAlertModal" and "mid = [] \<or> mid = e3"
    by blast
  moreover have "e3 = snd (snd (send_validate_sign sv s2))"
    using C by simp
  ultimately show ?thesis
    using E1 by blast
qed

lemma hb_send:
  assumes ab: "a \<in> {Returned Validate, Returned Sign, Acknowledged Submit True}"
    "b \<in> {Called Sign, Called Submit, Called Verify}"
    and mid: "\<And>s. happens_before a b (snd (snd (send_validate_sign sv s)))"
  shows "happens_before a b (snd (send sv pp enc st))"
proof -
  obtain pre mid post where ev: "snd (send sv pp enc st) = pre @ mid @ post"
    and pre: "set pre \<subseteq> {Called TransferRateLookup, Returned TransferRateLookup, Failed TransferRateLookup}"
    and post: "set post \<subseteq> range showAlertModal"
    and m: "mid = [] \<or> (\<exists>s. mid = snd (snd (send_validate_sign sv s)))"
    using send_events [of sv pp enc st] by blast
  have "a \<notin> set pre" "b \<notin> set pre" "b \<notin> set post"
    using ab pre post by auto
  moreover have "happens_before a b mid"
    using m mid by (auto simp: happens_before_def)
  ultimately show ?thesis
    by (simp add: ev hb_skip hb_tail)
qed

text \<open>
  The run of the example, with no transfer rate and an accepted submission: every
  service is called once, each after the one before has answered.
\<close>

lemma example_run:
  "snd (send (example_services (JNum (Fin 0)) True) 131072 Inr example_state) =
     [Called TransferRateLookup, Returned TransferRateLookup,
      Called Validate, Returned Validate, Called Sign, Returned Sign,
      Called Submit, Acknowledged Submit True, Called Verify, Acknowledged Verify True,
      VibrateHapticFeedback ''notificationSuccess'']
   \<and> currentStep (fst (send (example_services (JNum (Fin 0)) True) 131072 Inr example_state)) =
     Result"
  by (simp add: send_def then_do_def send_amount_def send_parties_def send_validate_sign_def
      submit_def changeStep_def example_services_def example_state_def example_line_def
      example_account_def SendView_constructor_def new_Payment_def Let_def)

subsection \<open>The flags of the payment\<close>

text \<open>
  For a trust line whose issuer's transfer-rate lookup answers \<open>rate\<close>, and a defined
  source account, \<^verbatim>\<open>send\<close> leaves the payment with the flags \<^verbatim>\<open>[PartialPayment]\<close> when the
  rate is truthy (a number other than zero) or the issuer is the source account, and
  with the flags it had before otherwise: \<^verbatim>\<open>send\<close> sets the flags and never clears them.
  This holds however the run goes on (validation, signing and submission do not touch
  the flags).
\<close>

lemma send_Flags_law:
  assumes "currency st = TrustLine t"
    and "getAccountTransferRate sv (issuer t) = Fulfilled rate"
    and "source st = Some a"
  shows "Flags (payment (fst (send sv PartialPayment NFTValueToXRPL st))) =
           (if truthy rate \<or> issuer t = address a then Some [PartialPayment]
            else Flags (payment st))
         \<and> carries_flag (payment (fst (send sv PartialPayment NFTValueToXRPL st))) PartialPayment =
           (truthy rate \<or> issuer t = address a \<or> carries_flag (payment st) PartialPayment)"
  using assms amount_Flags [of "st\<lparr>isLoading := True\<rparr>" t sv rate a PartialPayment NFTValueToXRPL]
  by (auto simp: send_Flags carries_flag_def)

text \<open>
  The first send of a screen, whose payment is the \<^verbatim>\<open>new Payment()\<close> of the constructor:
  without transfer rate and with an issuer other than the source the payment carries no
  flag, and with a transfer rate it carries the flag.
\<close>

lemma first_send_PartialPayment:
  "\<not> carries_flag
       (payment (fst (send (example_services (JNum (Fin 0)) True) 131072 Inr example_state)))
       131072
   \<and> carries_flag
       (payment (fst (send (example_services (JNum (Fin 1005000000)) True) 131072 Inr
          example_state)))
       131072"
proof -
  have c: "currency example_state = TrustLine example_line"
    and s: "source example_state = Some example_account"
    and p: "\<not> carries_flag (payment example_state) 131072"
    and i: "issuer example_line \<noteq> address example_account"
    by (simp_all add: example_state_def SendView_constructor_def example_line_def
        example_account_def new_Payment_def carries_flag_def)
  have r0: "getAccountTransferRate (example_services (JNum (Fin 0)) True) (issuer example_line) =
      Fulfilled (JNum (Fin 0))"
    and r1: "getAccountTransferRate (example_services (JNum (Fin 1005000000)) True)
      (issuer example_line) = Fulfilled (JNum (Fin 1005000000))"
    by (simp_all add: example_services_def)
  have n: "\<not> carries_flag
         (payment (fst (send (example_services (JNum (Fin 0)) True) 131072 Inr example_state)))
         131072"
    using send_Flags_law [OF c r0 s, of 131072 Inr, THEN conjunct2] p i by simp
  have y: "carries_flag
         (payment (fst (send (example_services (JNum (Fin 1005000000)) True) 131072 Inr
            example_state)))
         131072"
    using send_Flags_law [OF c r1 s, of 131072 Inr, THEN conjunct2] by simp
  show ?thesis
    by (intro conjI n y)
qed

subsection \<open>The retry\<close>

lemma summary_state_eq:
  "summary_state =
     \<lparr>currentStep = Summary, source = Some example_account,
      currency = TrustLine example_line, sendingNFT = False, amount = ''10'',
      destination = Some \<lparr>dest_address = ''rDestination'', dest_tag = None\<rparr>,
      payment = new_Payment, hapticFeedback = True, isLoading = False\<rparr>"
  by (simp add: summary_state_def goNext_def changeStep_def example_state_def
      SendView_constructor_def example_account_def example_line_def Let_def)

text \<open>
  The first send: the issuer charges a transfer rate, so the payment gets the transfer
  rate and the flag; then the validation rejects it, and the alert is shown. The screen
  stays at the summary, with the payment as the send has left it.
\<close>

lemma first_attempt:
  "goNext retry_services 131072 Inr summary_state =
     (summary_state\<lparr>payment :=
         \<lparr>Amount = Some (IssuedAmount ''USD'' ''rIssuer'' ''10''),
          Destination = Some \<lparr>dest_address = ''rDestination'', dest_tag = None\<rparr>,
          Account = Some ''rSource'', TransferRate = Some (JNum (Fin 1005000000)),
          Flags = Some [131072]\<rparr>\<rparr>,
      [Called TransferRateLookup, Returned TransferRateLookup, Called Validate, Failed Validate,
       showAlertModal ''insufficient balance''])"
  unfolding summary_state_eq
  by (simp add: goNext_def send_def then_do_def send_amount_def send_parties_def
      send_validate_sign_def retry_services_def example_line_def example_account_def
      new_Payment_def Let_def)

lemma retry_state_eq:
  "retry_state =
     \<lparr>currentStep = Summary, source = Some example_account,
      currency = TrustLine other_line, sendingNFT = False, amount = ''10'',
      destination = Some \<lparr>dest_address = ''rDestination'', dest_tag = None\<rparr>,
      payment =
        \<lparr>Amount = Some (IssuedAmount ''USD'' ''rIssuer'' ''10''),
         Destination = Some \<lparr>dest_address = ''rDestination'', dest_tag = None\<rparr>,
         Account = Some ''rSource'', TransferRate = Some (JNum (Fin 1005000000)),
         Flags = Some [131072]\<rparr>,
      hapticFeedback = True, isLoading = False\<rparr>"
  unfolding retry_state_def first_attempt
  by (simp add: summary_state_eq goNext_def goBack_def changeStep_def setCurrency_def
      other_line_def Let_def)

subsection \<open>The claims\<close>

text \<open>
  Claim C3 asks that a payment whose issuer has no transfer rate and is not the source
  account carries no partial-payment flag. The screen builds one payment object in its
  constructor and \<^verbatim>\<open>send\<close> writes into it; \<^verbatim>\<open>send\<close> assigns the flags when the condition
  holds and does not clear them when it does not. A first send for a trust line whose
  issuer charges a transfer rate sets the flag and fails in the validation; the user
  goes back, chooses a trust line whose issuer has no transfer rate and is not the
  source account, and sends again: this payment is validated, signed, submitted and
  verified with the partial-payment flag, and with the transfer rate of the first
  issuer. (The first send of a screen does as the claim says.)
\<close>

theorem retry_carries_PartialPayment:
  "snd (goNext retry_services 131072 Inr summary_state) =
     [Called TransferRateLookup, Returned TransferRateLookup, Called Validate, Failed Validate,
      showAlertModal ''insufficient balance'']
   \<and> currentStep retry_state = Summary
   \<and> currency retry_state = TrustLine other_line
   \<and> source retry_state = Some example_account
   \<and> issuer other_line \<noteq> address example_account
   \<and> getAccountTransferRate retry_services (issuer other_line) = Fulfilled (JNum (Fin 0))
   \<and> \<not> truthy (JNum (Fin 0))
   \<and> snd (goNext retry_services 131072 Inr retry_state) =
       [Called TransferRateLookup, Returned TransferRateLookup,
        Called Validate, Returned Validate, Called Sign, Returned Sign,
        Called Submit, Acknowledged Submit True, Called Verify, Acknowledged Verify True,
        VibrateHapticFeedback ''notificationSuccess'']
   \<and> payment (fst (goNext retry_services 131072 Inr retry_state)) =
       \<lparr>Amount = Some (IssuedAmount ''EUR'' ''rOther'' ''10''),
        Destination = Some \<lparr>dest_address = ''rDestination'', dest_tag = None\<rparr>,
        Account = Some ''rSource'', TransferRate = Some (JNum (Fin 1005000000)),
        Flags = Some [131072]\<rparr>
   \<and> carries_flag (payment (fst (goNext retry_services 131072 Inr retry_state))) 131072"
proof -
  have a: "snd (goNext retry_services 131072 Inr summary_state) =
     [Called TransferRateLookup, Returned TransferRateLookup, Called Validate, Failed Validate,
      showAlertModal ''insufficient balance'']"
    by (simp add: first_attempt)
  have b: "currentStep retry_state = Summary"
    and c: "currency retry_state = TrustLine other_line"
    and d: "source retry_state = Some example_account"
    by (simp_all add: retry_state_eq)
  have e: "issuer other_line \<noteq> address example_account"
    by (simp add: other_line_def example_account_def)
  have f: "getAccountTransferRate retry_services (issuer other_line) = Fulfilled (JNum (Fin 0))"
    by (simp add: retry_services_def other_line_def)
  have g: "\<not> truthy (JNum (Fin 0))"
    by simp
  have run: "goNext retry_services 131072 Inr retry_state =
      (retry_state\<lparr>currentStep := Result,
         payment :=
           \<lparr>Amount = Some (IssuedAmount ''EUR'' ''rOther'' ''10''),
            Destination = Some \<lparr>dest_address = ''rDestination'', dest_tag = None\<rparr>,
            Account = Some ''rSource'', TransferRate = Some (JNum (Fin 1005000000)),
            Flags = Some [131072]\<rparr>\<rparr>,
       [Called TransferRateLookup, Returned TransferRateLookup,
        Called Validate, Returned Validate, Called Sign, Returned Sign,
        Called Submit, Acknowledged Submit True, Called Verify, Acknowledged Verify True,
        VibrateHapticFeedback ''notificationSuccess''])"
    unfolding retry_state_eq
    by (simp add: goNext_def send_def then_do_def send_amount_def send_parties_def
        send_validate_sign_def submit_def changeStep_def retry_services_def other_line_def
        example_account_def Let_def)
  have h: "snd (goNext retry_services 131072 Inr retry_state) =
       [Called TransferRateLookup, Returned TransferRateLookup,
        Called Validate, Returned Validate, Called Sign, Returned Sign,
        Called Submit, Acknowledged Submit True, Called Verify, Acknowledged Verify True,
        VibrateHapticFeedback ''notificationSuccess'']"
    and i: "payment (fst (goNext retry_services 131072 Inr retry_state)) =
       \<lparr>Amount = Some (IssuedAmount ''EUR'' ''rOther'' ''10''),
        Destination = Some \<lparr>dest_address = ''rDestination'', dest_tag = None\<rparr>,
        Account = Some ''rSource'', TransferRate = Some (JNum (Fin 1005000000)),
        Flags = Some [131072]\<rparr>"
    by (simp_all add: run)
  have j: "carries_flag (payment (fst (goNext retry_services 131072 Inr retry_state))) 131072"
    by (simp add: i carries_flag_def)
  show ?thesis
    by (intro conjI a b c d e f g h i j)
qed

text \<open>
  Claim C4: a submission that is not accepted. When the promise of \<^verbatim>\<open>payment.submit()\<close> is
  fulfilled with \<^verbatim>\<open>success = false\<close>, \<^verbatim>\<open>submit\<close> ends in the step \<open>Result\<close>, after the
  error feedback if haptic feedback is on, and \<^verbatim>\<open>payment.verify()\<close> is not called. The
  step is final: \<^verbatim>\<open>goBack\<close> does nothing there and \<^verbatim>\<open>goNext\<close> leaves the screen.
\<close>

theorem submit_not_accepted:
  assumes "payment_submit sv (payment st) = Fulfilled r"
    and "\<not> success r"
  shows "submit sv st =
           (st\<lparr>currentStep := Result\<rparr>,
            [Called Submit, Acknowledged Submit False] @
            (if hapticFeedback st then [VibrateHapticFeedback ''notificationError''] else []))
         \<and> Called Verify \<notin> set (snd (submit sv st))
         \<and> goBack (fst (submit sv st)) = (fst (submit sv st), [])
         \<and> goNext sv PartialPayment NFTValueToXRPL (fst (submit sv st)) =
             (fst (submit sv st), [popToRoot])"
  using assms by (simp add: submit_def changeStep_def goBack_def goNext_def)

theorem submit_not_accepted_witness:
  "payment_submit (example_services (JNum (Fin 0)) False) (payment example_state) =
     Fulfilled \<lparr>success = False\<rparr>
   \<and> \<not> success \<lparr>success = False\<rparr>
   \<and> submit (example_services (JNum (Fin 0)) False) example_state =
       (example_state\<lparr>currentStep := Result\<rparr>,
        [Called Submit, Acknowledged Submit False, VibrateHapticFeedback ''notificationError''])
   \<and> Called Verify \<notin> set (snd (submit (example_services (JNum (Fin 0)) False) example_state))"
proof -
  have h: "payment_submit (example_services (JNum (Fin 0)) False) (payment example_state) =
      Fulfilled \<lparr>success = False\<rparr>"
    by (simp add: example_services_def)
  have f: "\<not> success \<lparr>success = False\<rparr>"
    by simp
  have hf: "hapticFeedback example_state"
    by (simp add: example_state_def SendView_constructor_def Let_def)
  note t = submit_not_accepted [OF h f, of 131072 Inr]
  have a: "submit (example_services (JNum (Fin 0)) False) example_state =
       (example_state\<lparr>currentStep := Result\<rparr>,
        [Called Submit, Acknowledged Submit False, VibrateHapticFeedback ''notificationError''])"
    using t [THEN conjunct1] hf by simp
  have b: "Called Verify \<notin> set (snd (submit (example_services (JNum (Fin 0)) False) example_state))"
    using t [THEN conjunct2, THEN conjunct1] .
  show ?thesis
    by (intro conjI h f a b)
qed

text \<open>
  Claim C8: the order of the lifecycle. In the events of every run of \<^verbatim>\<open>send\<close>, whatever
  the services answer: \<^verbatim>\<open>sign\<close> is not called before \<^verbatim>\<open>validate\<close> has returned, \<^verbatim>\<open>submit\<close> is
  not called before \<^verbatim>\<open>sign\<close> has returned, and \<^verbatim>\<open>verify\<close> is not called before \<^verbatim>\<open>submit\<close> has
  been acknowledged with success.
\<close>

theorem send_ordering:
  "happens_before (Returned Validate) (Called Sign) (snd (send sv PartialPayment NFTValueToXRPL st))
   \<and> happens_before (Returned Sign) (Called Submit) (snd (send sv PartialPayment NFTValueToXRPL st))
   \<and> happens_before (Acknowledged Submit True) (Called Verify)
       (snd (send sv PartialPayment NFTValueToXRPL st))"
  by (simp add: hb_send vs_hb)

end
